theory Spec2Isabelle
  imports Main "HOL-Library.Word" "HOL-Library.Multiset"
begin

section \<open>Name/value pair lists and protocol lists (devsdk-base.c)\<close>

text \<open>
  The C lists are singly linked through a \<open>next\<close> pointer; a list is modelled as a HOL list
  of its nodes, head first, and the NULL list as \<open>[]\<close>. A \<open>char *\<close> that the code
  tests against NULL is a \<open>string option\<close>; \<open>strcmp (a, b) == 0\<close> on NUL-terminated
  strings is equality of the strings.
\<close>

record devsdk_nvpair =
  nv_name :: string
  nv_value :: string

type_synonym devsdk_nvpairs = "devsdk_nvpair list"

definition devsdk_nvpairs_new :: "string \<Rightarrow> string \<Rightarrow> devsdk_nvpairs \<Rightarrow> devsdk_nvpairs" where
  "devsdk_nvpairs_new name val list = \<lparr>nv_name = name, nv_value = val\<rparr> # list"

text \<open>The \<open>for\<close> loop of \<open>devsdk_nvpairs_value\<close>: the first node whose name matches.\<close>

fun nvpairs_value_loop :: "devsdk_nvpairs \<Rightarrow> string \<Rightarrow> string option" where
  "nvpairs_value_loop [] name = None"
| "nvpairs_value_loop (p # nvp) name =
     (if nv_name p = name then Some (nv_value p) else nvpairs_value_loop nvp name)"

definition devsdk_nvpairs_value :: "devsdk_nvpairs \<Rightarrow> string option \<Rightarrow> string option" where
  "devsdk_nvpairs_value nvp name =
     (case name of None \<Rightarrow> None | Some n \<Rightarrow> nvpairs_value_loop nvp n)"

subsection \<open>The conversions of the C library\<close>













subsection \<open>Typed accessors\<close>




text \<open>
  \<open>devsdk_nvpairs_dup\<close> keeps \<open>last\<close>, the address of the \<open>next\<close> field of the last node
  copied: every copy is linked in at the tail of \<open>result\<close>.
\<close>

fun nvpairs_dup_loop :: "devsdk_nvpairs \<Rightarrow> devsdk_nvpairs \<Rightarrow> devsdk_nvpairs" where
  "nvpairs_dup_loop [] result = result"
| "nvpairs_dup_loop (p # ps) result =
     nvpairs_dup_loop ps (result @ [\<lparr>nv_name = nv_name p, nv_value = nv_value p\<rparr>])"

definition devsdk_nvpairs_dup :: "devsdk_nvpairs \<Rightarrow> devsdk_nvpairs" where
  "devsdk_nvpairs_dup p = nvpairs_dup_loop p []"

record devsdk_protocol =
  prot_name :: string
  properties :: devsdk_nvpairs

type_synonym devsdk_protocols = "devsdk_protocol list"

definition devsdk_protocols_new ::
  "string \<Rightarrow> devsdk_nvpairs \<Rightarrow> devsdk_protocols \<Rightarrow> devsdk_protocols" where
  "devsdk_protocols_new name props list =
     \<lparr>prot_name = name, properties = devsdk_nvpairs_dup props\<rparr> # list"

text \<open>
  \<open>devsdk_protocols_properties\<close> returns the \<open>properties\<close> pointer of the first node
  with the name: a list, which is NULL, the list \<open>[]\<close>, when the protocol has no
  properties, as it is when no node has the name or the name is NULL.
\<close>

fun protocols_properties_loop :: "devsdk_protocols \<Rightarrow> string \<Rightarrow> devsdk_nvpairs" where
  "protocols_properties_loop [] name = []"
| "protocols_properties_loop (p # prots) name =
     (if prot_name p = name then properties p else protocols_properties_loop prots name)"

definition devsdk_protocols_properties ::
  "devsdk_protocols \<Rightarrow> string option \<Rightarrow> devsdk_nvpairs" where
  "devsdk_protocols_properties prots name =
     (case name of None \<Rightarrow> [] | Some n \<Rightarrow> protocols_properties_loop prots n)"

text \<open>
  \<open>devsdk_protocols_dup\<close> has no tail pointer: each new node gets \<open>next = result\<close> and
  becomes the new \<open>result\<close>.
\<close>

fun protocols_dup_loop :: "devsdk_protocols \<Rightarrow> devsdk_protocols \<Rightarrow> devsdk_protocols" where
  "protocols_dup_loop [] result = result"
| "protocols_dup_loop (p # ps) result =
     protocols_dup_loop ps
       (\<lparr>prot_name = prot_name p, properties = devsdk_nvpairs_dup (properties p)\<rparr> # result)"

definition devsdk_protocols_dup :: "devsdk_protocols \<Rightarrow> devsdk_protocols" where
  "devsdk_protocols_dup e = protocols_dup_loop e []"

subsection \<open>The macro \<open>LIST_EQUAL_FUNCTION\<close>\<close>

text \<open>
  The counters \<open>n1\<close> and \<open>n2\<close> are \<open>unsigned\<close>: 32 bits, incremented with wrap-around.
\<close>

fun list_count :: "'a list \<Rightarrow> 32 word \<Rightarrow> 32 word" where
  "list_count [] n = n"
| "list_count (l # ls) n = list_count ls (n + 1)"

text \<open>The inner loop: \<open>found\<close> is the first node of \<open>l2\<close> with the name, or NULL.\<close>

fun list_found :: "('a \<Rightarrow> string) \<Rightarrow> string \<Rightarrow> 'a list \<Rightarrow> 'a option" where
  "list_found namefield k [] = None"
| "list_found namefield k (found # rest) =
     (if namefield found = k then Some found else list_found namefield k rest)"

fun list_equal_loop ::
  "('a \<Rightarrow> string) \<Rightarrow> ('a \<Rightarrow> 'a \<Rightarrow> bool) \<Rightarrow> 'a list \<Rightarrow> 'a list \<Rightarrow> bool" where
  "list_equal_loop namefield cmpfunc [] l2 = True"
| "list_equal_loop namefield cmpfunc (l # ls) l2 =
     (case list_found namefield (namefield l) l2 of
        None \<Rightarrow> False
      | Some found \<Rightarrow>
          if \<not> cmpfunc l found then False else list_equal_loop namefield cmpfunc ls l2)"

definition LIST_EQUAL_FUNCTION ::
  "('a \<Rightarrow> string) \<Rightarrow> ('a \<Rightarrow> 'a \<Rightarrow> bool) \<Rightarrow> 'a list \<Rightarrow> 'a list \<Rightarrow> bool" where
  "LIST_EQUAL_FUNCTION namefield cmpfunc l1 l2 =
     (let n1 = list_count l1 0; n2 = list_count l2 0
      in if n1 \<noteq> n2 then False else list_equal_loop namefield cmpfunc l1 l2)"

definition pair_equal :: "devsdk_nvpair \<Rightarrow> devsdk_nvpair \<Rightarrow> bool" where
  "pair_equal p1 p2 = (nv_value p1 = nv_value p2)"

definition devsdk_nvpairs_equal :: "devsdk_nvpairs \<Rightarrow> devsdk_nvpairs \<Rightarrow> bool" where
  "devsdk_nvpairs_equal = LIST_EQUAL_FUNCTION nv_name pair_equal"

definition protocol_equal :: "devsdk_protocol \<Rightarrow> devsdk_protocol \<Rightarrow> bool" where
  "protocol_equal p1 p2 = devsdk_nvpairs_equal (properties p1) (properties p2)"

definition devsdk_protocols_equal :: "devsdk_protocols \<Rightarrow> devsdk_protocols \<Rightarrow> bool" where
  "devsdk_protocols_equal = LIST_EQUAL_FUNCTION prot_name protocol_equal"

subsection \<open>The specification's strict parse\<close>



section \<open>The service lifecycle (service.c)\<close>

subsection \<open>Errors, configuration and metadata records\<close>

text \<open>
  Modelled from the spec: \<open>errorlist.h\<close> is not among the sources. The error record is a
  code and a reason; the code tests \<open>err->code\<close> against 0 only, and \<open>EDGEX_OK\<close> is the
  record with code 0. The constructors are the errors this file assigns (section 7 of the
  specification); \<open>EDGEX_OTHER\<close> stands for any other record with a code that is not 0,
  as a collaborator may leave in \<open>*err\<close>.
\<close>

datatype devsdk_error =
    EDGEX_OK
  | EDGEX_BAD_CONFIG
  | EDGEX_INVALID_ARG
  | EDGEX_DRIVER_UNSTART
  | EDGEX_REMOTE_SERVER_DOWN
  | EDGEX_OTHER nat

record timespec =
  tv_sec :: int
  tv_nsec :: int

record edgex_device_service_endpoint =
  ep_host :: "string option"
  ep_port :: nat

record edgex_device_serviceinfo =
  si_host :: "string option"
  si_port :: nat
  si_timeout :: timespec
  si_connectretries :: "32 word"
  si_startupmsg :: "string option"
  si_checkinterval :: "string option"
  si_labels :: "string list"

record edgex_device_endpoints =
  ep_data :: edgex_device_service_endpoint
  ep_metadata :: edgex_device_service_endpoint
  ep_logging :: edgex_device_service_endpoint

record edgex_device_logginginfo =
  lg_useremote :: bool
  lg_file :: "string option"
  lg_level :: nat

record edgex_device_deviceinfo =
  dv_datatransform :: bool
  dv_profilesdir :: "string option"

record edgex_device_config =
  cf_service :: edgex_device_serviceinfo
  cf_endpoints :: edgex_device_endpoints
  cf_logging :: edgex_device_logginginfo
  cf_device :: edgex_device_deviceinfo
  cf_driverconf :: devsdk_nvpairs

datatype edgex_device_adminstate = LOCKED | UNLOCKED

datatype edgex_device_operatingstate = ENABLED | DISABLED

record edgex_addressable =
  ad_id :: "string option"
  ad_name :: string
  ad_method :: string
  ad_protocol :: string
  ad_address :: string
  ad_port :: nat
  ad_path :: string
  ad_origin :: nat

record edgex_deviceservice =
  ds_id :: "string option"
  ds_name :: string
  ds_addressable :: edgex_addressable
  ds_operatingState :: edgex_device_operatingstate
  ds_adminState :: edgex_device_adminstate
  ds_created :: nat
  ds_labels :: "string list"

text \<open>
  Types the lifecycle code only passes on: a parsed TOML table, a device profile, a command
  of a profile, a cooked event, a provision watcher and the values of a reading are tags.
\<close>

datatype toml_table_t = Toml_Table string

type_synonym edgex_deviceprofile = string

type_synonym edgex_cmdinfo = string

type_synonym edgex_event_cooked = string

type_synonym edgex_watcher = string

type_synonym devsdk_commandresult = "string list"

record edgex_device =
  dev_name :: string
  dev_profile :: edgex_deviceprofile

datatype devsdk_registry = Registry_At string

datatype rest_server = Rest_Server nat

datatype iot_scheduler_t = Scheduler

datatype edgex_log_impl = edgex_log_tofile | edgex_log_torest

text \<open>
  Where a logger writes: a path, or the \<open>/api/v1/logs\<close> URL built from the host and port
  of the logging endpoint.
\<close>

datatype log_target = To_Path string | To_Logs_Url "string option" nat

record iot_logger_t =
  lo_to :: log_target
  lo_impl :: edgex_log_impl
  lo_next :: "log_target option"

text \<open>
  Modelled from the spec: \<open>devmap.c\<close> is not among the sources. Section 4.2: the device
  map "maps name\<rightarrow>device"; \<open>edgex_devmap_device_byname\<close> is the lookup in it, NULL when the
  name is absent.
\<close>

type_synonym edgex_devmap_t = "string \<rightharpoonup> edgex_device"

record devsdk_service_t =
  svc_name :: string
  svc_version :: string
  svc_confdir :: string
  svc_profile :: "string option"
  svc_regURL :: "string option"
  svc_registry :: "devsdk_registry option"
  svc_config :: edgex_device_config
  svc_logger :: iot_logger_t
  svc_devices :: edgex_devmap_t
  svc_daemon :: "rest_server option"
  svc_scheduler :: "iot_scheduler_t option"
  svc_stopconfig :: "bool option"
  svc_adminstate :: edgex_device_adminstate
  svc_opstate :: edgex_device_operatingstate
  svc_starttime :: nat

definition EDGEX_DEV_API_PING :: string where
  "EDGEX_DEV_API_PING = ''/api/v1/ping''"

definition EDGEX_DEV_API_VERSION :: string where
  "EDGEX_DEV_API_VERSION = ''/api/version''"

definition EDGEX_DEV_API_DISCOVERY :: string where
  "EDGEX_DEV_API_DISCOVERY = ''/api/v1/discovery''"

definition EDGEX_DEV_API_DEVICE :: string where
  "EDGEX_DEV_API_DEVICE = ''/api/v1/device/''"

definition EDGEX_DEV_API_CALLBACK :: string where
  "EDGEX_DEV_API_CALLBACK = ''/api/v1/callback''"

definition EDGEX_DEV_API_CONFIG :: string where
  "EDGEX_DEV_API_CONFIG = ''/api/v1/config''"

definition EDGEX_DEV_API_METRICS :: string where
  "EDGEX_DEV_API_METRICS = ''/api/v1/metrics''"

datatype edgex_http_method = GET | POST | PUT | DELETE

subsection \<open>Calls out of the service, and the collaborators\<close>

text \<open>
  Every call the lifecycle code makes out of this file is recorded, in order, in a trace,
  grouped by the collaborator called: the logger, the registry, the metadata client, the
  REST server, the driver, the IOT utility library (time, thread pool, scheduler) and the
  other modules of the SDK (device map, watch list, profiles, data, configuration).
  The collaborators themselves (REST clients, registry, HTTP server, driver, C library) are
  not part of the code verified here: what each one answers is a field of the environment
  \<open>env\<close>. A collaborator that acts on the outside world gets the trace so far as its first
  argument, so its answers may differ from call to call in any way. A collaborator that is
  handed \<open>err\<close> answers with the content of \<open>*err\<close> after the call.
\<close>

datatype log_level = LOG_ERROR | LOG_INFO | LOG_DEBUG

datatype registry_call =
    Registry_Get_Registry string
  | Registry_Ping
  | Registry_Get_Config
  | Registry_Put_Config devsdk_nvpairs
  | Registry_Query_Service string
  | Registry_Register_Service string string nat
  | Registry_Deregister_Service string

datatype metadata_call =
    Get_DeviceService string
  | Get_Addressable string
  | Create_Addressable edgex_addressable
  | Create_DeviceService edgex_deviceservice
  | Update_Addressable edgex_addressable
  | Profiles_Upload
  | Get_Devices string
  | Get_Watchers string

datatype rest_call =
    Rest_Server_Create nat
  | Register_Handler string "edgex_http_method list"
  | Rest_Server_Destroy

datatype driver_call = Driver_Init devsdk_nvpairs | Driver_Stop bool

datatype iot_call =
    Iot_Time_Msecs
  | Iot_Init
  | Threadpool_Start
  | Threadpool_Add_Work edgex_event_cooked
  | Threadpool_Wait
  | Scheduler_Start
  | Scheduler_Stop
  | Scheduler_Free

datatype edgex_call =
    Devmap_Populate_Devices
  | Devmap_Device_Byname string
  | Device_Release string
  | Devmap_Clear
  | Watchlist_Populate
  | Process_Configured_Devices
  | Find_Command string
  | Process_Event string
  | DeviceService_Free edgex_deviceservice

datatype config_call =
    Load_Config string "string option"
  | Populate_Config devsdk_nvpairs
  | Parse_Toml_Clients

datatype event =
    Log log_level string
  | Http_Get string nat
  | Nanosleep timespec
  | Registry registry_call
  | Metadata metadata_call
  | Rest rest_call
  | Driver driver_call
  | Iot iot_call
  | Edgex edgex_call
  | Config config_call

record env =
  env_nodename :: string
  env_getenv :: "string \<Rightarrow> string option"
  env_atoi :: "string \<Rightarrow> 32 word"
  env_time_msecs :: "event list \<Rightarrow> nat"
  env_nanosleep :: "event list \<Rightarrow> int"
  env_http_get :: "event list \<Rightarrow> string \<Rightarrow> nat \<Rightarrow> devsdk_error"
  env_get_deviceservice :: "event list \<Rightarrow> string \<Rightarrow> edgex_deviceservice option \<times> devsdk_error"
  env_get_addressable :: "event list \<Rightarrow> string \<Rightarrow> edgex_addressable option \<times> devsdk_error"
  env_create_addressable :: "event list \<Rightarrow> edgex_addressable \<Rightarrow> string option \<times> devsdk_error"
  env_create_deviceservice :: "event list \<Rightarrow> edgex_deviceservice \<Rightarrow> string option \<times> devsdk_error"
  env_update_addressable :: "event list \<Rightarrow> edgex_addressable \<Rightarrow> devsdk_error"
  env_profiles_upload :: "event list \<Rightarrow> devsdk_error"
  env_get_devices :: "event list \<Rightarrow> string \<Rightarrow> edgex_device list \<times> devsdk_error"
  env_devmap_populate_devices :: "edgex_devmap_t \<Rightarrow> edgex_device list \<Rightarrow> edgex_devmap_t"
  env_rest_server_create :: "event list \<Rightarrow> nat \<Rightarrow> rest_server option \<times> devsdk_error"
  env_process_configured_devices ::
    "event list \<Rightarrow> toml_table_t \<Rightarrow> edgex_devmap_t \<Rightarrow> edgex_devmap_t \<times> devsdk_error"
  env_driver_init :: "event list \<Rightarrow> devsdk_nvpairs \<Rightarrow> bool"
  env_get_watchers :: "event list \<Rightarrow> string \<Rightarrow> edgex_watcher list \<times> devsdk_error"
  env_register_service ::
    "event list \<Rightarrow> string \<Rightarrow> string \<Rightarrow> nat \<Rightarrow> string option \<Rightarrow> devsdk_error"
  env_deregister_service :: "event list \<Rightarrow> string \<Rightarrow> devsdk_error"
  env_loadConfig :: "event list \<Rightarrow> string \<Rightarrow> string option \<Rightarrow> toml_table_t option \<times> devsdk_error"
  env_getRegURL :: "toml_table_t option \<Rightarrow> string option"
  env_get_registry :: "event list \<Rightarrow> string \<Rightarrow> devsdk_registry option"
  env_registry_ping :: "event list \<Rightarrow> bool \<times> devsdk_error"
  env_get_config :: "event list \<Rightarrow> devsdk_nvpairs \<times> devsdk_error"
  env_populateConfig ::
    "devsdk_nvpairs \<Rightarrow> edgex_device_config \<Rightarrow> edgex_device_config \<times> devsdk_error"
  env_parseToml :: "toml_table_t option \<Rightarrow> devsdk_nvpairs"
  env_overrideConfig :: "string \<Rightarrow> devsdk_nvpairs \<Rightarrow> devsdk_nvpairs"
  env_put_config :: "event list \<Rightarrow> devsdk_nvpairs \<Rightarrow> devsdk_error"
  env_query_service ::
    "event list \<Rightarrow> string \<Rightarrow> edgex_device_service_endpoint \<Rightarrow> edgex_device_service_endpoint"
  env_parseTomlClients ::
    "toml_table_t option \<Rightarrow> edgex_device_endpoints \<Rightarrow> edgex_device_endpoints \<times> devsdk_error"
  env_findcommand :: "string \<Rightarrow> edgex_deviceprofile \<Rightarrow> bool \<Rightarrow> edgex_cmdinfo option"
  env_process_event ::
    "string \<Rightarrow> edgex_cmdinfo \<Rightarrow> devsdk_commandresult \<Rightarrow> bool \<Rightarrow> edgex_event_cooked option"

text \<open>
  The state a function of this file works on: the service structure, the error record the
  caller passed as \<open>err\<close>, and the trace of calls made so far.
\<close>

record world =
  svc :: devsdk_service_t
  err :: devsdk_error
  trace :: "event list"

definition emit :: "event \<Rightarrow> 'a world_scheme \<Rightarrow> 'a world_scheme" where
  "emit e w = w\<lparr>trace := trace w @ [e]\<rparr>"

text \<open>
  A block of a function either executes a \<open>return\<close> or falls through to the next block.
\<close>

datatype ('r, 'c) flow = Returned 'r | Running 'c

definition andthen :: "('r, 'a) flow \<Rightarrow> ('a \<Rightarrow> ('r, 'b) flow) \<Rightarrow> ('r, 'b) flow" where
  "andthen m f = (case m of Returned r \<Rightarrow> Returned r | Running c \<Rightarrow> f c)"

definition finish :: "('r, 'r) flow \<Rightarrow> 'r" where
  "finish m = (case m of Returned r \<Rightarrow> r | Running r \<Rightarrow> r)"

subsection \<open>\<open>ping_client\<close>\<close>

text \<open>
  The \<open>do ... while (retries-- && nanosleep (&delay, NULL) == 0)\<close> loop. \<open>retries\<close> is an
  \<open>int\<close>; it is only tested against 0 and decremented, so it is a 32-bit word here (a
  negative count runs down through the wrap-around). One round of the body is one call of
  \<open>edgex_http_get\<close>; the result is whether the service was found.
\<close>

function ping_client_loop ::
  "env \<Rightarrow> string \<Rightarrow> string \<Rightarrow> nat \<Rightarrow> 32 word \<Rightarrow> timespec \<Rightarrow> 'a world_scheme
   \<Rightarrow> bool \<times> 'a world_scheme" where
  "ping_client_loop env sname host port retries delay w =
     (let e = env_http_get env (trace w) host port;
          w1 = emit (Http_Get host port) (w\<lparr>err := e\<rparr>)
      in if e = EDGEX_OK then (True, emit (Log LOG_INFO ''Found %s service at %s:%d'') w1)
         else if retries \<noteq> 0 then
           (let r = env_nanosleep env (trace w1);
                w2 = emit (Nanosleep delay) w1
            in if r = 0 then ping_client_loop env sname host port (retries - 1) delay w2
               else (False, w2))
         else (False, w1))"
  by pat_completeness auto
termination
  by (relation "measure (\<lambda>(env, sname, host, port, retries, delay, w). unat retries)")
    (auto simp: unat_minus_one unat_gt_0)

declare ping_client_loop.simps [simp del]

definition ping_client ::
  "env \<Rightarrow> string \<Rightarrow> edgex_device_service_endpoint \<Rightarrow> 32 word \<Rightarrow> timespec \<Rightarrow> 'a world_scheme
   \<Rightarrow> bool \<times> 'a world_scheme" where
  "ping_client env sname ep retries delay w =
     (case ep_host ep of
        None \<Rightarrow>
          (False, (emit (Log LOG_ERROR ''Missing endpoint for %s service.'') w)\<lparr>err := EDGEX_BAD_CONFIG\<rparr>)
      | Some host \<Rightarrow>
          if ep_port ep = 0 then
            (False, (emit (Log LOG_ERROR ''Missing endpoint for %s service.'') w)\<lparr>err := EDGEX_BAD_CONFIG\<rparr>)
          else
            (case ping_client_loop env sname host (ep_port ep) retries delay w of
               (found, w1) \<Rightarrow>
                 if found then (True, w1)
                 else (False,
                   (emit (Log LOG_ERROR ''Can't connect to %s service at %s:%d'') w1)
                     \<lparr>err := EDGEX_REMOTE_SERVER_DOWN\<rparr>)))"

subsection \<open>\<open>startConfigured\<close>\<close>

definition myhost :: "env \<Rightarrow> devsdk_service_t \<Rightarrow> string" where
  "myhost env s =
     (case si_host (cf_service (svc_config s)) of Some h \<Rightarrow> h | None \<Rightarrow> env_nodename env)"

text \<open>Lines 319 to 333: the states, and the wait for core-data and core-metadata.\<close>

definition sc_wait_services :: "env \<Rightarrow> 'a world_scheme \<Rightarrow> ('a world_scheme, 'a world_scheme) flow" where
  "sc_wait_services env w =
     (let w0 = w\<lparr>svc := (svc w)\<lparr>svc_adminstate := UNLOCKED, svc_opstate := ENABLED\<rparr>\<rparr>;
          cfg = svc_config (svc w0)
      in case ping_client env ''core-data'' (ep_data (cf_endpoints cfg))
              (si_connectretries (cf_service cfg)) (si_timeout (cf_service cfg)) w0 of
           (found, w1) \<Rightarrow>
             if \<not> found then Returned w1
             else
               (case ping_client env ''core-metadata'' (ep_metadata (cf_endpoints cfg))
                      (si_connectretries (cf_service cfg)) (si_timeout (cf_service cfg)) w1 of
                  (found, w2) \<Rightarrow>
                    if \<not> found then Returned w2
                    else Running (w2\<lparr>err := EDGEX_OK\<rparr>)))"

text \<open>
  Lines 346 to 400, \<open>ds == NULL\<close>: the addressable is fetched, created when there is none,
  and the device service is created with it. The labels are linked in one by one, each in
  front of the ones before.
\<close>

fun labels_loop :: "string list \<Rightarrow> string list \<Rightarrow> string list" where
  "labels_loop [] labels = labels"
| "labels_loop (l # ls) labels = labels_loop ls (l # labels)"

definition sc_create_deviceservice ::
  "env \<Rightarrow> 'a world_scheme \<Rightarrow> ('a world_scheme, edgex_deviceservice \<times> 'a world_scheme) flow" where
  "sc_create_deviceservice env w =
     (let millis = env_time_msecs env (trace w);
          w1 = emit (Iot Iot_Time_Msecs) w;
          name = svc_name (svc w)
      in case env_get_addressable env (trace w1) name of
           (fetched, e) \<Rightarrow>
             let w2 = emit (Metadata (Get_Addressable name)) (w1\<lparr>err := e\<rparr>)
             in if e \<noteq> EDGEX_OK then Returned (emit (Log LOG_ERROR ''get_addressable failed'') w2)
                else
                  andthen
                    (case fetched of
                       Some addr \<Rightarrow> Running (addr, w2)
                     | None \<Rightarrow>
                         (let addr = \<lparr>ad_id = None, ad_name = name, ad_method = ''POST'',
                                ad_protocol = ''HTTP'', ad_address = myhost env (svc w),
                                ad_port = si_port (cf_service (svc_config (svc w))),
                                ad_path = EDGEX_DEV_API_CALLBACK, ad_origin = millis\<rparr>
                          in case env_create_addressable env (trace w2) addr of
                               (newid, e) \<Rightarrow>
                                 let w3 = emit (Metadata (Create_Addressable addr)) (w2\<lparr>err := e\<rparr>)
                                 in if e \<noteq> EDGEX_OK
                                    then Returned (emit (Log LOG_ERROR ''create_addressable failed'') w3)
                                    else Running (addr\<lparr>ad_id := newid\<rparr>, w3)))
                    (\<lambda>(addr, w4).
                       let ds = \<lparr>ds_id = None, ds_name = name, ds_addressable = addr,
                              ds_operatingState = ENABLED, ds_adminState = UNLOCKED,
                              ds_created = millis,
                              ds_labels = labels_loop (si_labels (cf_service (svc_config (svc w)))) []\<rparr>
                       in case env_create_deviceservice env (trace w4) ds of
                            (newid, e) \<Rightarrow>
                              let w5 = emit (Metadata (Create_DeviceService ds)) (w4\<lparr>err := e\<rparr>)
                              in if e \<noteq> EDGEX_OK
                                 then Returned
                                   (emit (Log LOG_ERROR ''Unable to create device service in metadata'') w5)
                                 else Running (ds\<lparr>ds_id := newid\<rparr>, w5)))"

text \<open>Lines 401 to 416, \<open>ds != NULL\<close>: the addressable is updated when port or host differ.\<close>

definition sc_update_addressable ::
  "env \<Rightarrow> edgex_deviceservice \<Rightarrow> 'a world_scheme
   \<Rightarrow> ('a world_scheme, edgex_deviceservice \<times> 'a world_scheme) flow" where
  "sc_update_addressable env ds w =
     (if ad_port (ds_addressable ds) \<noteq> si_port (cf_service (svc_config (svc w)))
         \<or> ad_address (ds_addressable ds) \<noteq> myhost env (svc w)
      then
        (let w1 = emit (Log LOG_INFO ''Updating service endpoint in metadata'') w;
             addr = (ds_addressable ds)
               \<lparr>ad_port := si_port (cf_service (svc_config (svc w))),
                ad_address := myhost env (svc w)\<rparr>;
             e = env_update_addressable env (trace w1) addr;
             w2 = emit (Metadata (Update_Addressable addr)) (w1\<lparr>err := e\<rparr>)
         in if e \<noteq> EDGEX_OK then Returned (emit (Log LOG_ERROR ''update_addressable failed'') w2)
            else Running (ds\<lparr>ds_addressable := addr\<rparr>, w2))
      else Running (ds, w))"

text \<open>Lines 335 to 417: the device service is registered in metadata.\<close>

definition sc_register_deviceservice ::
  "env \<Rightarrow> 'a world_scheme \<Rightarrow> ('a world_scheme, 'a world_scheme) flow" where
  "sc_register_deviceservice env w =
     (case env_get_deviceservice env (trace w) (svc_name (svc w)) of
        (fetched, e) \<Rightarrow>
          let w1 = emit (Metadata (Get_DeviceService (svc_name (svc w)))) (w\<lparr>err := e\<rparr>)
          in if e \<noteq> EDGEX_OK then Returned (emit (Log LOG_ERROR ''get_deviceservice failed'') w1)
             else
               andthen
                 (case fetched of
                    None \<Rightarrow> sc_create_deviceservice env w1
                  | Some ds \<Rightarrow> sc_update_addressable env ds w1)
                 (\<lambda>(ds, w2). Running (emit (Edgex (DeviceService_Free ds)) w2)))"

text \<open>Lines 419 to 439: profiles are uploaded, devices fetched and put into the map.\<close>

definition sc_load_devices :: "env \<Rightarrow> 'a world_scheme \<Rightarrow> ('a world_scheme, 'a world_scheme) flow" where
  "sc_load_devices env w =
     (let e = env_profiles_upload env (trace w);
          w1 = emit (Metadata Profiles_Upload) (w\<lparr>err := e\<rparr>)
      in if e \<noteq> EDGEX_OK then Returned w1
         else
           (case env_get_devices env (trace w1) (svc_name (svc w1)) of
              (devs, e) \<Rightarrow>
                let w2 = emit (Metadata (Get_Devices (svc_name (svc w1)))) (w1\<lparr>err := e\<rparr>)
                in if e \<noteq> EDGEX_OK
                   then Returned
                     (emit (Log LOG_ERROR ''Unable to retrieve device list from metadata'') w2)
                   else Running
                     (emit (Edgex Devmap_Populate_Devices)
                        (w2\<lparr>svc := (svc w2)\<lparr>svc_devices :=
                           env_devmap_populate_devices env (svc_devices (svc w2)) devs\<rparr>\<rparr>))))"

text \<open>Lines 441 to 454: the REST server is created and the callback handler registered.\<close>

definition sc_start_rest :: "env \<Rightarrow> 'a world_scheme \<Rightarrow> ('a world_scheme, 'a world_scheme) flow" where
  "sc_start_rest env w =
     (case env_rest_server_create env (trace w) (si_port (cf_service (svc_config (svc w)))) of
        (daemon, e) \<Rightarrow>
          let w1 = emit (Rest (Rest_Server_Create (si_port (cf_service (svc_config (svc w))))))
                     (w\<lparr>svc := (svc w)\<lparr>svc_daemon := daemon\<rparr>, err := e\<rparr>)
          in if e \<noteq> EDGEX_OK then Returned w1
             else Running (emit (Rest (Register_Handler EDGEX_DEV_API_CALLBACK [PUT, POST, DELETE])) w1))"

text \<open>Lines 456 to 466: the devices of the configuration file.\<close>

definition sc_configured_devices ::
  "env \<Rightarrow> toml_table_t option \<Rightarrow> 'a world_scheme \<Rightarrow> ('a world_scheme, 'a world_scheme) flow" where
  "sc_configured_devices env config w =
     (case config of
        None \<Rightarrow> Running w
      | Some table \<Rightarrow>
          (case env_process_configured_devices env (trace w) table (svc_devices (svc w)) of
             (devices, e) \<Rightarrow>
               let w1 = emit (Edgex Process_Configured_Devices)
                          (w\<lparr>svc := (svc w)\<lparr>svc_devices := devices\<rparr>, err := e\<rparr>)
               in if e \<noteq> EDGEX_OK then Returned w1 else Running w1))"

text \<open>Lines 468 to 475: the driver is initialised.\<close>

definition sc_driver_init :: "env \<Rightarrow> 'a world_scheme \<Rightarrow> ('a world_scheme, 'a world_scheme) flow" where
  "sc_driver_init env w =
     (let ok = env_driver_init env (trace w) (cf_driverconf (svc_config (svc w)));
          w1 = emit (Driver (Driver_Init (cf_driverconf (svc_config (svc w))))) w
      in if \<not> ok
         then Returned
           (emit (Log LOG_ERROR ''Protocol driver initialization failed'') (w1\<lparr>err := EDGEX_DRIVER_UNSTART\<rparr>))
         else Running w1)"

text \<open>
  Lines 477 to 525: provision watchers (a failure is logged and the function goes on), the
  scheduler, and the other six handlers.
\<close>

definition sc_watchers_and_handlers ::
  "env \<Rightarrow> 'a world_scheme \<Rightarrow> ('a world_scheme, 'a world_scheme) flow" where
  "sc_watchers_and_handlers env w =
     (case env_get_watchers env (trace w) (svc_name (svc w)) of
        (watchers, e) \<Rightarrow>
          let w1 = emit (Metadata (Get_Watchers (svc_name (svc w)))) (w\<lparr>err := e\<rparr>);
              w2 = (if e \<noteq> EDGEX_OK
                    then emit (Log LOG_ERROR ''Unable to retrieve provision watchers from metadata'') w1
                    else w1);
              w3 = (if watchers \<noteq> []
                    then emit (Log LOG_INFO ''Added %u provision watchers from metadata'')
                           (emit (Edgex Watchlist_Populate) w2)
                    else w2);
              w4 = emit (Iot Scheduler_Start) w3;
              w5 = emit (Rest (Register_Handler EDGEX_DEV_API_DEVICE [GET, PUT, POST])) w4;
              w6 = emit (Rest (Register_Handler EDGEX_DEV_API_DISCOVERY [POST])) w5;
              w7 = emit (Rest (Register_Handler EDGEX_DEV_API_METRICS [GET])) w6;
              w8 = emit (Rest (Register_Handler EDGEX_DEV_API_CONFIG [GET])) w7;
              w9 = emit (Rest (Register_Handler EDGEX_DEV_API_VERSION [GET])) w8
          in Running (emit (Rest (Register_Handler EDGEX_DEV_API_PING [GET])) w9))"

text \<open>Lines 527 to 550: registration in the registry, and the start-up message.\<close>

definition sc_register_service :: "env \<Rightarrow> 'a world_scheme \<Rightarrow> ('a world_scheme, 'a world_scheme) flow" where
  "sc_register_service env w =
     andthen
       (case svc_registry (svc w) of
          None \<Rightarrow> Running w
        | Some registry \<Rightarrow>
            (let e = env_register_service env (trace w) (svc_name (svc w)) (myhost env (svc w))
                       (si_port (cf_service (svc_config (svc w))))
                       (si_checkinterval (cf_service (svc_config (svc w))));
                 w1 = emit (Registry (Registry_Register_Service (svc_name (svc w)) (myhost env (svc w))
                              (si_port (cf_service (svc_config (svc w))))))
                        (w\<lparr>err := e\<rparr>)
             in if e \<noteq> EDGEX_OK
                then Returned (emit (Log LOG_ERROR ''Unable to register service in registry'') w1)
                else Running w1))
       (\<lambda>w2. case si_startupmsg (cf_service (svc_config (svc w2))) of
                None \<Rightarrow> Running w2
              | Some msg \<Rightarrow> Running (emit (Log LOG_INFO msg) w2))"

definition startConfigured :: "env \<Rightarrow> toml_table_t option \<Rightarrow> 'a world_scheme \<Rightarrow> 'a world_scheme" where
  "startConfigured env config w =
     finish
       (andthen (sc_wait_services env w) (\<lambda>w.
        andthen (sc_register_deviceservice env w) (\<lambda>w.
        andthen (sc_load_devices env w) (\<lambda>w.
        andthen (sc_start_rest env w) (\<lambda>w.
        andthen (sc_configured_devices env config w) (\<lambda>w.
        andthen (sc_driver_init env w) (\<lambda>w.
        andthen (sc_watchers_and_handlers env w) (\<lambda>w.
        sc_register_service env w))))))))"

subsection \<open>\<open>devsdk_service_start\<close>\<close>

text \<open>
  The local variables \<open>config\<close>, \<open>uploadConfig\<close> and \<open>confpairs\<close> of
  \<open>devsdk_service_start\<close> extend the state. A NULL pair list is the empty list.
\<close>

record start_frame = world +
  fr_config :: "toml_table_t option"
  fr_uploadConfig :: bool
  fr_confpairs :: devsdk_nvpairs

definition set_config :: "edgex_device_config \<Rightarrow> 'a world_scheme \<Rightarrow> 'a world_scheme" where
  "set_config cfg w = w\<lparr>svc := (svc w)\<lparr>svc_config := cfg\<rparr>\<rparr>"

definition set_endpoints :: "edgex_device_endpoints \<Rightarrow> 'a world_scheme \<Rightarrow> 'a world_scheme" where
  "set_endpoints eps w = set_config ((svc_config (svc w))\<lparr>cf_endpoints := eps\<rparr>) w"

definition set_logger :: "iot_logger_t \<Rightarrow> 'a world_scheme \<Rightarrow> 'a world_scheme" where
  "set_logger lg w = w\<lparr>svc := (svc w)\<lparr>svc_logger := lg\<rparr>\<rparr>"

text \<open>Lines 559 to 564.\<close>

definition ss_begin :: "env \<Rightarrow> start_frame \<Rightarrow> (start_frame, start_frame) flow" where
  "ss_begin env f =
     (let f1 = emit (Iot Iot_Time_Msecs) (f\<lparr>svc := (svc f)\<lparr>svc_starttime := env_time_msecs env (trace f)\<rparr>\<rparr>);
          f2 = emit (Iot Iot_Init) f1;
          f3 = emit (Iot Threadpool_Start) f2
      in Running (f3\<lparr>err := EDGEX_OK\<rparr>))"

text \<open>
  Lines 566 to 587: with a registry URL given, the registry is looked up; an empty URL is
  first replaced by the one of the configuration file.
\<close>

definition ss_find_registry :: "env \<Rightarrow> start_frame \<Rightarrow> (start_frame, start_frame) flow" where
  "ss_find_registry env f =
     (case svc_regURL (svc f) of
        None \<Rightarrow> Running f
      | Some url \<Rightarrow>
          andthen
            (if url = [] then
               (case env_loadConfig env (trace f) (svc_confdir (svc f)) (svc_profile (svc f)) of
                  (cfg, e) \<Rightarrow>
                    let f1 = emit (Config (Load_Config (svc_confdir (svc f)) (svc_profile (svc f))))
                               (f\<lparr>err := e, fr_config := cfg\<rparr>)
                    in if e \<noteq> EDGEX_OK then Returned f1
                       else Running (f1\<lparr>svc := (svc f1)\<lparr>svc_regURL := env_getRegURL env cfg\<rparr>\<rparr>))
             else Running f)
            (\<lambda>f2.
               let f3 = (case svc_regURL (svc f2) of
                           None \<Rightarrow> f2
                         | Some u \<Rightarrow>
                             emit (Registry (Registry_Get_Registry u))
                               (f2\<lparr>svc := (svc f2)\<lparr>svc_registry := env_get_registry env (trace f2) u\<rparr>\<rparr>))
               in if svc_registry (svc f3) = None
                  then Returned
                    ((emit (Log LOG_ERROR ''Registry was requested but no location given'') f3)
                       \<lparr>err := EDGEX_INVALID_ARG\<rparr>)
                  else Running f3))"

text \<open>
  The loop \<open>while (!devsdk_registry_ping (svc->registry, err) && --retries)\<close> with the
  \<open>nanosleep\<close> in its body. \<open>retries\<close> is \<open>unsigned\<close>; the result is its value when the
  loop is left.
\<close>

function registry_wait_loop ::
  "env \<Rightarrow> timespec \<Rightarrow> 32 word \<Rightarrow> 'a world_scheme \<Rightarrow> 32 word \<times> 'a world_scheme" where
  "registry_wait_loop env delay retries w =
     (case env_registry_ping env (trace w) of
        (ok, e) \<Rightarrow>
          let w1 = emit (Registry Registry_Ping) (w\<lparr>err := e\<rparr>)
          in if ok then (retries, w1)
             else if retries - 1 \<noteq> 0
               then registry_wait_loop env delay (retries - 1) (emit (Nanosleep delay) w1)
               else (retries - 1, w1))"
  by pat_completeness auto
termination
proof (relation "measure (\<lambda>(env, delay, retries, w). unat (retries - 1))", goal_cases)
  case 1
  show ?case by simp
next
  case (2 env delay retries w x y z)
  have pred: "unat (r - 1) < unat r" if "r \<noteq> 0" for r :: "32 word"
    using that by (simp add: unat_minus_one unat_gt_0)
  from \<open>retries - 1 \<noteq> 0\<close> have "unat (retries - 1 - 1) < unat (retries - 1)"
    by (rule pred)
  then show ?case by simp
qed

declare registry_wait_loop.simps [simp del]

definition registry_retries :: "env \<Rightarrow> 32 word" where
  "registry_retries env =
     (case env_getenv env ''edgex_registry_retry_count'' of
        None \<Rightarrow> 5
      | Some errc \<Rightarrow> (let rc = env_atoi env errc in if 0 < sint rc then rc else 5))"

definition registry_delay :: "env \<Rightarrow> timespec" where
  "registry_delay env =
     \<lparr>tv_sec =
        (case env_getenv env ''edgex_registry_retry_wait'' of
           None \<Rightarrow> 1
         | Some errw \<Rightarrow> (let rw = env_atoi env errw in if 0 < sint rw then sint rw else 1)),
      tv_nsec = 0\<rparr>"

text \<open>
  Lines 589 to 648: the wait for the registry, and the configuration it holds. Without one
  (\<open>confpairs\<close> NULL) the file is to be loaded and uploaded.
\<close>

definition ss_wait_registry :: "env \<Rightarrow> start_frame \<Rightarrow> (start_frame, start_frame) flow" where
  "ss_wait_registry env f =
     (case svc_registry (svc f) of
        None \<Rightarrow> Running f
      | Some registry \<Rightarrow>
          (case registry_wait_loop env (registry_delay env) (registry_retries env) f of
             (retries, f1) \<Rightarrow>
               if retries = 0
               then Returned
                 ((emit (Log LOG_ERROR ''registry service not running at %s'') f1)
                    \<lparr>err := EDGEX_REMOTE_SERVER_DOWN\<rparr>)
               else
                 (let f2 = emit (Log LOG_INFO ''Found registry service at %s'') f1;
                      f3 = f2\<lparr>svc := (svc f2)\<lparr>svc_stopconfig := Some False\<rparr>\<rparr>
                  in case env_get_config env (trace f3) of
                       (pairs, e) \<Rightarrow>
                         let f4 = emit (Registry Registry_Get_Config) (f3\<lparr>err := e, fr_confpairs := pairs\<rparr>)
                         in if pairs \<noteq> [] then
                              (case env_populateConfig env pairs (svc_config (svc f4)) of
                                 (cfg, e) \<Rightarrow>
                                   let f5 = emit (Config (Populate_Config pairs)) ((set_config cfg f4)\<lparr>err := e\<rparr>)
                                   in if e \<noteq> EDGEX_OK then Returned f5 else Running f5)
                            else
                              Running
                                ((emit (Log LOG_INFO ''Will load from file.'')
                                    (emit (Log LOG_INFO ''Unable to get configuration from registry.'') f4))
                                   \<lparr>err := EDGEX_OK, fr_uploadConfig := True\<rparr>))))"

text \<open>
  Lines 650 to 677: the configuration file is loaded (unless it was already), parsed into
  pairs and into the configuration record, and on \<open>uploadConfig\<close> the pairs, overridden from
  the environment, are put into the registry.
\<close>

definition ss_load_file :: "env \<Rightarrow> start_frame \<Rightarrow> (start_frame, start_frame) flow" where
  "ss_load_file env f =
     (if fr_uploadConfig f \<or> svc_registry (svc f) = None then
        andthen
          (case fr_config f of
             Some table \<Rightarrow> Running f
           | None \<Rightarrow>
               (case env_loadConfig env (trace f) (svc_confdir (svc f)) (svc_profile (svc f)) of
                  (cfg, e) \<Rightarrow>
                    let f1 = emit (Config (Load_Config (svc_confdir (svc f)) (svc_profile (svc f))))
                               (f\<lparr>err := e, fr_config := cfg\<rparr>)
                    in if e \<noteq> EDGEX_OK then Returned f1 else Running f1))
          (\<lambda>f2.
             let pairs = env_parseToml env (fr_config f2)
             in case env_populateConfig env pairs (svc_config (svc f2)) of
                  (cfg, e) \<Rightarrow>
                    let f3 = emit (Config (Populate_Config pairs))
                               ((set_config cfg f2)\<lparr>err := e, fr_confpairs := pairs\<rparr>)
                    in if fr_uploadConfig f3 then
                         (let f4 = emit (Log LOG_INFO ''Uploading configuration to registry.'') f3;
                              overridden = env_overrideConfig env (svc_name (svc f4)) pairs;
                              e = env_put_config env (trace f4) overridden;
                              f5 = emit (Registry (Registry_Put_Config overridden))
                                     (f4\<lparr>err := e, fr_confpairs := overridden\<rparr>)
                          in if e \<noteq> EDGEX_OK
                             then Returned (emit (Log LOG_ERROR ''Unable to upload config: %s'') f5)
                             else Running f5)
                       else Running f3)
      else Running f)"

text \<open>
  Lines 679 to 695: the log file, and the endpoints of the core services, asked of the
  registry (errors go to a local record) or read from the \<open>Clients\<close> table.
\<close>

definition ss_endpoints :: "env \<Rightarrow> start_frame \<Rightarrow> (start_frame, start_frame) flow" where
  "ss_endpoints env f =
     (let f1 = (case lg_file (cf_logging (svc_config (svc f))) of
                  None \<Rightarrow> f
                | Some file \<Rightarrow> set_logger ((svc_logger (svc f))\<lparr>lo_to := To_Path file\<rparr>) f)
      in case svc_registry (svc f1) of
           Some registry \<Rightarrow>
             (let eps = cf_endpoints (svc_config (svc f1));
                  m = env_query_service env (trace f1) ''edgex-core-metadata'' (ep_metadata eps);
                  f2 = emit (Registry (Registry_Query_Service ''edgex-core-metadata'')) f1;
                  d = env_query_service env (trace f2) ''edgex-core-data'' (ep_data eps);
                  f3 = emit (Registry (Registry_Query_Service ''edgex-core-data'')) f2;
                  l = env_query_service env (trace f3) ''edgex-support-logging'' (ep_logging eps);
                  f4 = emit (Registry (Registry_Query_Service ''edgex-support-logging'')) f3
              in Running (set_endpoints \<lparr>ep_data = d, ep_metadata = m, ep_logging = l\<rparr> f4))
         | None \<Rightarrow>
             (case env_parseTomlClients env (fr_config f1) (cf_endpoints (svc_config (svc f1))) of
                (eps, e) \<Rightarrow> Running (emit (Config Parse_Toml_Clients) ((set_endpoints eps f1)\<lparr>err := e\<rparr>))))"

text \<open>Lines 697 to 725: remote logging, after a ping of support-logging.\<close>

definition ss_remote_logging :: "env \<Rightarrow> start_frame \<Rightarrow> (start_frame, start_frame) flow" where
  "ss_remote_logging env f =
     (let cfg = svc_config (svc f)
      in if lg_useremote (cf_logging cfg) then
           (case ping_client env ''support-logging'' (ep_logging (cf_endpoints cfg))
                   (si_connectretries (cf_service cfg)) (si_timeout (cf_service cfg)) f of
              (found, f1) \<Rightarrow>
                if found then
                  (let url = To_Logs_Url (ep_host (ep_logging (cf_endpoints cfg)))
                               (ep_port (ep_logging (cf_endpoints cfg)))
                   in if lg_file (cf_logging cfg) \<noteq> None
                      then Running (set_logger ((svc_logger (svc f1))\<lparr>lo_next := Some url\<rparr>) f1)
                      else Running
                        (set_logger ((svc_logger (svc f1))\<lparr>lo_impl := edgex_log_torest, lo_to := url\<rparr>) f1))
                else Returned f1)
         else Running f)"

fun log_pairs_loop :: "devsdk_nvpairs \<Rightarrow> 'a world_scheme \<Rightarrow> 'a world_scheme" where
  "log_pairs_loop [] w = w"
| "log_pairs_loop (iter # rest) w = log_pairs_loop rest (emit (Log LOG_DEBUG ''%s=%s'') w)"

text \<open>Lines 727 to 750: the start-up log, and \<open>startConfigured\<close>.\<close>

definition ss_bringup :: "env \<Rightarrow> start_frame \<Rightarrow> (start_frame, start_frame) flow" where
  "ss_bringup env f =
     (let cfg = svc_config (svc f);
          f1 = (if dv_profilesdir (cf_device cfg) = None
                then set_config (cfg\<lparr>cf_device := (cf_device cfg)\<lparr>dv_profilesdir := Some (svc_confdir (svc f))\<rparr>\<rparr>) f
                else f);
          f2 = emit (Log LOG_INFO ''Starting %s device service, version %s'') f1;
          f3 = emit (Log LOG_INFO ''EdgeX device SDK for C, version '') f2;
          f4 = emit (Log LOG_DEBUG ''Service configuration follows:'') f3;
          f5 = log_pairs_loop (fr_confpairs f4) f4;
          f6 = startConfigured env (fr_config f5) f5
      in if err f6 = EDGEX_OK
         then Running
           (emit (Log LOG_INFO ''Listening on port: %d'')
              (emit (Log LOG_INFO ''Service started in: %dms'') (emit (Iot Iot_Time_Msecs) f6)))
         else Running f6)"

definition devsdk_service_start :: "env \<Rightarrow> world \<Rightarrow> start_frame" where
  "devsdk_service_start env w =
     finish
       (andthen (ss_begin env
                   \<lparr>svc = svc w, err = err w, trace = trace w,
                    fr_config = None, fr_uploadConfig = False, fr_confpairs = []\<rparr>) (\<lambda>f.
        andthen (ss_find_registry env f) (\<lambda>f.
        andthen (ss_wait_registry env f) (\<lambda>f.
        andthen (ss_load_file env f) (\<lambda>f.
        andthen (ss_endpoints env f) (\<lambda>f.
        andthen (ss_remote_logging env f) (\<lambda>f.
        ss_bringup env f)))))))"

subsection \<open>\<open>devsdk_post_readings\<close> and \<open>devsdk_service_stop\<close>\<close>

definition devsdk_post_readings ::
  "env \<Rightarrow> string \<Rightarrow> string \<Rightarrow> devsdk_commandresult \<Rightarrow> 'a world_scheme \<Rightarrow> 'a world_scheme" where
  "devsdk_post_readings env devname resname values w =
     (let w1 = emit (Edgex (Devmap_Device_Byname devname)) w
      in case svc_devices (svc w) devname of
           None \<Rightarrow> emit (Log LOG_ERROR ''Post readings: no such device %s'') w1
         | Some dev \<Rightarrow>
             (let command = env_findcommand env resname (dev_profile dev) True;
                  w2 = emit (Edgex (Find_Command resname)) w1;
                  w3 = emit (Edgex (Device_Release (dev_name dev))) w2
              in case command of
                   Some cmd \<Rightarrow>
                     (let w4 = emit (Edgex (Process_Event devname)) w3
                      in case env_process_event env devname cmd values
                                (dv_datatransform (cf_device (svc_config (svc w)))) of
                           Some cooked \<Rightarrow> emit (Iot (Threadpool_Add_Work cooked)) w4
                         | None \<Rightarrow> w4)
                 | None \<Rightarrow> emit (Log LOG_ERROR ''Post readings: no such resource %s'') w3))"

definition devsdk_service_stop :: "env \<Rightarrow> bool \<Rightarrow> 'a world_scheme \<Rightarrow> 'a world_scheme" where
  "devsdk_service_stop env force w =
     (let w1 = emit (Log LOG_DEBUG ''Stop device service'') (w\<lparr>err := EDGEX_OK\<rparr>);
          w2 = (case svc_stopconfig (svc w1) of
                  None \<Rightarrow> w1
                | Some flag \<Rightarrow> w1\<lparr>svc := (svc w1)\<lparr>svc_stopconfig := Some True\<rparr>\<rparr>);
          w3 = (case svc_scheduler (svc w2) of None \<Rightarrow> w2 | Some sch \<Rightarrow> emit (Iot Scheduler_Stop) w2);
          w4 = (case svc_daemon (svc w3) of None \<Rightarrow> w3 | Some d \<Rightarrow> emit (Rest Rest_Server_Destroy) w3);
          w5 = emit (Driver (Driver_Stop force)) w4;
          w6 = emit (Edgex Devmap_Clear) (w5\<lparr>svc := (svc w5)\<lparr>svc_devices := Map.empty\<rparr>\<rparr>);
          w7 = (case svc_registry (svc w6) of
                  None \<Rightarrow> w6
                | Some registry \<Rightarrow>
                    (let e = env_deregister_service env (trace w6) (svc_name (svc w6));
                         w' = emit (Registry (Registry_Deregister_Service (svc_name (svc w6)))) (w6\<lparr>err := e\<rparr>)
                     in if e \<noteq> EDGEX_OK
                        then emit (Log LOG_ERROR ''Unable to deregister service from registry'') w'
                        else w'));
          w8 = emit (Iot Scheduler_Free) w7;
          w9 = emit (Iot Threadpool_Wait) w8
      in emit (Log LOG_INFO ''Stopped device service'') w9)"

subsection \<open>Observations on traces\<close>

text \<open>The calls a ping probe makes: the HTTP request, the sleep and the log.\<close>

fun is_ping_event :: "event \<Rightarrow> bool" where
  "is_ping_event (Http_Get host port) = True"
| "is_ping_event (Nanosleep delay) = True"
| "is_ping_event (Log LOG_INFO msg) = True"
| "is_ping_event (Log LOG_ERROR msg) = True"
| "is_ping_event e = False"

text \<open>
  The calls whose order section 4.10 fixes around the driver: a handler registration, the
  processing of the configured devices, the initialisation of the driver.
\<close>

fun landmark :: "event \<Rightarrow> bool" where
  "landmark (Rest (Register_Handler path methods)) = True"
| "landmark (Edgex Process_Configured_Devices) = True"
| "landmark (Driver (Driver_Init conf)) = True"
| "landmark e = False"

text \<open>
  The calls of the block that registers the device service in metadata (lines 335 to 417)
  which no other block makes.
\<close>

fun reconcile_event :: "event \<Rightarrow> bool" where
  "reconcile_event (Metadata (Get_DeviceService name)) = True"
| "reconcile_event (Metadata (Get_Addressable name)) = True"
| "reconcile_event (Metadata (Create_Addressable addr)) = True"
| "reconcile_event (Metadata (Create_DeviceService ds)) = True"
| "reconcile_event (Metadata (Update_Addressable addr)) = True"
| "reconcile_event (Edgex (DeviceService_Free ds)) = True"
| "reconcile_event e = False"

fun is_put_config :: "event \<Rightarrow> bool" where
  "is_put_config (Registry (Registry_Put_Config pairs)) = True"
| "is_put_config e = False"

fun is_add_work :: "event \<Rightarrow> bool" where
  "is_add_work (Iot (Threadpool_Add_Work cooked)) = True"
| "is_add_work e = False"

subsection \<open>A service and an environment for the examples\<close>

text \<open>
  The examples below run the functions on this service: no registry, core-data and
  core-metadata on the local host, service port 49990, one device in the map. In this
  environment every collaborator succeeds, metadata holds no record of the service, the
  registry holds no configuration and no environment variable is set; an example changes
  the fields it is about.
\<close>

definition example_svc :: devsdk_service_t where
  "example_svc =
     \<lparr>svc_name = ''device-example'', svc_version = ''1.0'', svc_confdir = ''res'',
      svc_profile = None, svc_regURL = None, svc_registry = None,
      svc_config =
        \<lparr>cf_service =
           \<lparr>si_host = None, si_port = 49990, si_timeout = \<lparr>tv_sec = 1, tv_nsec = 0\<rparr>,
            si_connectretries = 3, si_startupmsg = None, si_checkinterval = None,
            si_labels = []\<rparr>,
         cf_endpoints =
           \<lparr>ep_data = \<lparr>ep_host = Some ''localhost'', ep_port = 48080\<rparr>,
            ep_metadata = \<lparr>ep_host = Some ''localhost'', ep_port = 48081\<rparr>,
            ep_logging = \<lparr>ep_host = None, ep_port = 0\<rparr>\<rparr>,
         cf_logging = \<lparr>lg_useremote = False, lg_file = None, lg_level = 0\<rparr>,
         cf_device = \<lparr>dv_datatransform = True, dv_profilesdir = None\<rparr>,
         cf_driverconf = []\<rparr>,
      svc_logger = \<lparr>lo_to = To_Path ''-'', lo_impl = edgex_log_tofile, lo_next = None\<rparr>,
      svc_devices =
        [''thermostat'' \<mapsto> \<lparr>dev_name = ''thermostat'', dev_profile = ''thermostat-profile''\<rparr>],
      svc_daemon = None, svc_scheduler = Some Scheduler, svc_stopconfig = None,
      svc_adminstate = LOCKED, svc_opstate = DISABLED, svc_starttime = 0\<rparr>"

definition example_world :: world where
  "example_world = \<lparr>svc = example_svc, err = EDGEX_OK, trace = []\<rparr>"

definition example_env :: env where
  "example_env =
     \<lparr>env_nodename = ''edge-node'',
      env_getenv = (\<lambda>var. None),
      env_atoi = (\<lambda>s. 0),
      env_time_msecs = (\<lambda>h. 1000),
      env_nanosleep = (\<lambda>h. 0),
      env_http_get = (\<lambda>h host port. EDGEX_OK),
      env_get_deviceservice = (\<lambda>h name. (None, EDGEX_OK)),
      env_get_addressable = (\<lambda>h name. (None, EDGEX_OK)),
      env_create_addressable = (\<lambda>h addr. (Some ''a1'', EDGEX_OK)),
      env_create_deviceservice = (\<lambda>h ds. (Some ''d1'', EDGEX_OK)),
      env_update_addressable = (\<lambda>h addr. EDGEX_OK),
      env_profiles_upload = (\<lambda>h. EDGEX_OK),
      env_get_devices = (\<lambda>h name. ([], EDGEX_OK)),
      env_devmap_populate_devices = (\<lambda>devices devs. devices),
      env_rest_server_create = (\<lambda>h port. (Some (Rest_Server port), EDGEX_OK)),
      env_process_configured_devices = (\<lambda>h table devices. (devices, EDGEX_OK)),
      env_driver_init = (\<lambda>h conf. True),
      env_get_watchers = (\<lambda>h name. ([], EDGEX_OK)),
      env_register_service = (\<lambda>h name host port interval. EDGEX_OK),
      env_deregister_service = (\<lambda>h name. EDGEX_OK),
      env_loadConfig = (\<lambda>h confdir profile. (Some (Toml_Table ''configuration.toml''), EDGEX_OK)),
      env_getRegURL = (\<lambda>table. None),
      env_get_registry = (\<lambda>h url. Some (Registry_At url)),
      env_registry_ping = (\<lambda>h. (True, EDGEX_OK)),
      env_get_config = (\<lambda>h. ([], EDGEX_OK)),
      env_populateConfig = (\<lambda>pairs cfg. (cfg, EDGEX_OK)),
      env_parseToml = (\<lambda>table. [\<lparr>nv_name = ''Service/Port'', nv_value = ''49990''\<rparr>]),
      env_overrideConfig = (\<lambda>name pairs. pairs),
      env_put_config = (\<lambda>h pairs. EDGEX_OK),
      env_query_service = (\<lambda>h name ep. ep),
      env_parseTomlClients = (\<lambda>table eps. (eps, EDGEX_OK)),
      env_findcommand = (\<lambda>resname profile forget. if resname = ''temperature'' then Some ''temperature'' else None),
      env_process_event = (\<lambda>devname cmd vals transform. Some ''cooked'')\<rparr>"

section \<open>Properties of the pair and protocol lists\<close>

subsection \<open>Copies\<close>

lemma nvpairs_dup_loop_append: "nvpairs_dup_loop p result = result @ p"
  by (induction p arbitrary: result) simp_all

lemma devsdk_nvpairs_dup_id: "devsdk_nvpairs_dup p = p"
  by (simp add: devsdk_nvpairs_dup_def nvpairs_dup_loop_append)

lemma protocols_dup_loop_rev: "protocols_dup_loop e result = rev e @ result"
  by (induction e arbitrary: result) (simp_all add: devsdk_nvpairs_dup_id)

lemma devsdk_protocols_dup_rev: "devsdk_protocols_dup e = rev e"
  by (simp add: devsdk_protocols_dup_def protocols_dup_loop_rev)

subsection \<open>The generated comparison functions\<close>

lemma list_count_length: "list_count l n = n + of_nat (length l)"
  by (induction l arbitrary: n) simp_all

lemma list_found_None: "list_found nf k l = None \<longleftrightarrow> k \<notin> nf ` set l"
  by (induction l) auto

lemma list_found_Some: "list_found nf k l = Some x \<Longrightarrow> x \<in> set l \<and> nf x = k"
  by (induction l) (auto split: if_splits)

lemma list_found_distinct:
  "distinct (map nf l) \<Longrightarrow> x \<in> set l \<Longrightarrow> list_found nf (nf x) l = Some x"
  by (induction l) (auto simp: rev_image_eqI)

lemma list_equal_loop_iff:
  "list_equal_loop nf cmp l1 l2 \<longleftrightarrow>
     (\<forall>l \<in> set l1. \<exists>f. list_found nf (nf l) l2 = Some f \<and> cmp l f)"
  by (induction l1) (auto split: option.splits)

lemma count32_eq:
  "m < 2 ^ 32 \<Longrightarrow> n < 2 ^ 32 \<Longrightarrow> (of_nat m :: 32 word) = of_nat n \<longleftrightarrow> m = n"
  by (simp add: word_of_nat_eq_iff take_bit_nat_eq_self)

lemma devsdk_nvpairs_equal_iff:
  "devsdk_nvpairs_equal l1 l2 \<longleftrightarrow>
     (of_nat (length l1) :: 32 word) = of_nat (length l2) \<and>
     (\<forall>l \<in> set l1. \<exists>f. list_found nv_name (nv_name l) l2 = Some f \<and> nv_value l = nv_value f)"
  by (simp add: devsdk_nvpairs_equal_def LIST_EQUAL_FUNCTION_def Let_def list_count_length
      list_equal_loop_iff pair_equal_def)

lemma nvpairs_equal_subset:
  assumes "devsdk_nvpairs_equal l1 l2"
  shows "set l1 \<subseteq> set l2"
proof
  fix l assume "l \<in> set l1"
  with assms obtain f where f: "list_found nv_name (nv_name l) l2 = Some f" "nv_value l = nv_value f"
    by (auto simp: devsdk_nvpairs_equal_iff)
  from f(1) have "f \<in> set l2" "nv_name f = nv_name l"
    by (auto dest: list_found_Some)
  with f(2) have "f = l" by simp
  with \<open>f \<in> set l2\<close> show "l \<in> set l2" by simp
qed

lemma nvpairs_equal_mset:
  assumes d1: "distinct (map nv_name l1)" and len: "length l2 < 2 ^ 32"
  shows "devsdk_nvpairs_equal l1 l2 \<longleftrightarrow> mset l1 = mset l2"
proof
  assume eq: "devsdk_nvpairs_equal l1 l2"
  have sub: "set l1 \<subseteq> set l2" by (rule nvpairs_equal_subset [OF eq])
  have dl1: "distinct l1" using d1 by (rule distinct_map [THEN iffD1, THEN conjunct1])
  have "length l1 = card (set l1)" using dl1 by (simp add: distinct_card)
  also have "\<dots> \<le> card (set l2)" using sub by (simp add: card_mono)
  also have "\<dots> \<le> length l2" by (rule card_length)
  finally have le: "length l1 \<le> length l2" .
  with len have "length l1 < 2 ^ 32" by simp
  moreover from eq have "(of_nat (length l1) :: 32 word) = of_nat (length l2)"
    by (simp add: devsdk_nvpairs_equal_iff)
  ultimately have leq: "length l1 = length l2" using len by (simp add: count32_eq)
  have c: "card (set l2) \<le> card (set l1)"
    using card_length [of l2] leq dl1 by (simp add: distinct_card)
  have seq: "set l1 = set l2" using sub c by (simp add: card_seteq)
  have "card (set l2) = length l2" using seq leq dl1 distinct_card [of l1] by simp
  then have "distinct l2" by (rule card_distinct)
  with dl1 seq show "mset l1 = mset l2" by (simp add: set_eq_iff_mset_eq_distinct)
next
  assume m: "mset l1 = mset l2"
  then have leq: "length l1 = length l2" by (rule mset_eq_length)
  from m have seq: "set l1 = set l2" by (rule mset_eq_setD)
  from m have "mset (map nv_name l1) = mset (map nv_name l2)" by simp
  then have d2: "distinct (map nv_name l2)" using d1 by (metis distinct_count_atmost_1 mset_eq_imp_distinct_iff)
  show "devsdk_nvpairs_equal l1 l2"
    unfolding devsdk_nvpairs_equal_iff
    using leq seq list_found_distinct [OF d2] by auto
qed

subsection \<open>Lookup\<close>

lemma nvpairs_value_loop_None:
  "nvpairs_value_loop nvp n = None \<longleftrightarrow> n \<notin> nv_name ` set nvp"
  by (induction nvp) auto

lemma nvpairs_value_loop_append:
  "n \<notin> nv_name ` set front \<Longrightarrow>
   nvpairs_value_loop (front @ back) n = nvpairs_value_loop back n"
  by (induction front) auto

lemma foldl_nvpairs_new:
  "foldl (\<lambda>l (k, w). devsdk_nvpairs_new k w l) nvp adds =
   rev (map (\<lambda>(k, w). \<lparr>nv_name = k, nv_value = w\<rparr>) adds) @ nvp"
  by (induction adds arbitrary: nvp) (auto simp: devsdk_nvpairs_new_def)

text \<open>
  Claim C10. \<open>devsdk_nvpairs_new\<close> puts the new pair at the head, and
  \<open>devsdk_nvpairs_value\<close> returns the value of the first pair bearing the name: NULL for
  a NULL name, NULL exactly when no pair has the name, the value just added for the name just
  added, and, in a list grown by successive calls of \<open>devsdk_nvpairs_new\<close>, the value of
  the addition \<open>(n, v)\<close> whenever no later addition bears the name \<open>n\<close>, whatever
  earlier additions do.
\<close>

theorem nvpairs_value_most_recent:
  "devsdk_nvpairs_value nvp None = None \<and>
   (devsdk_nvpairs_value nvp (Some n) = None \<longleftrightarrow> n \<notin> nv_name ` set nvp) \<and>
   devsdk_nvpairs_value (devsdk_nvpairs_new n v nvp) (Some n) = Some v \<and>
   (n \<notin> fst ` set later \<longrightarrow>
      devsdk_nvpairs_value
        (foldl (\<lambda>l (k, w). devsdk_nvpairs_new k w l) nvp (earlier @ (n, v) # later))
        (Some n) = Some v)"
proof -
  have "nvpairs_value_loop
      (rev (map (\<lambda>(k, w). \<lparr>nv_name = k, nv_value = w\<rparr>) later) @
       \<lparr>nv_name = n, nv_value = v\<rparr> # rev (map (\<lambda>(k, w). \<lparr>nv_name = k, nv_value = w\<rparr>) earlier) @ nvp) n
      = Some v" if "n \<notin> fst ` set later"
  proof -
    have "n \<notin> nv_name ` set (rev (map (\<lambda>(k, w). \<lparr>nv_name = k, nv_value = w\<rparr>) later))"
      using that by (auto simp: image_iff)
    then show ?thesis by (simp add: nvpairs_value_loop_append)
  qed
  then show ?thesis
    unfolding foldl_nvpairs_new
    by (simp add: devsdk_nvpairs_value_def nvpairs_value_loop_None devsdk_nvpairs_new_def)
qed

text \<open>The name \<open>port\<close> added twice: the lookup gives the second value.\<close>

theorem nvpairs_value_most_recent_witness:
  "devsdk_nvpairs_value
     (foldl (\<lambda>l (k, w). devsdk_nvpairs_new k w l) []
        [(''port'', ''1''), (''host'', ''h''), (''port'', ''2''), (''path'', ''p'')])
     (Some ''port'') = Some ''2''"
  using nvpairs_value_most_recent [where nvp = "[]" and n = "''port''" and v = "''2''"
      and later = "[(''path'', ''p'')]" and earlier = "[(''port'', ''1''), (''host'', ''h'')]"]
  by simp

subsection \<open>Typed accessors\<close>




















subsection \<open>Equality of pair lists\<close>

text \<open>
  Claim C7, amended. \<open>devsdk_nvpairs_equal\<close> compares every pair of \<open>l1\<close> with the
  first pair of \<open>l2\<close> that bears its name. So a list equals its copy exactly when pairs
  with the same name carry the same value. When no name occurs twice in \<open>l1\<close> (and
  \<open>l2\<close> is short enough for the 32-bit counter), the two lists are equal exactly when one is
  a permutation of the other; they are unequal whenever their sets of names differ, and whenever
  some name has different values in the two.
\<close>

theorem nvpairs_equal_unique_names:
  "(devsdk_nvpairs_equal (devsdk_nvpairs_dup l1) l1 \<longleftrightarrow>
      (\<forall>p \<in> set l1. \<forall>q \<in> set l1. nv_name p = nv_name q \<longrightarrow> nv_value p = nv_value q)) \<and>
   (distinct (map nv_name l1) \<and> length l2 < 2 ^ 32 \<longrightarrow>
      (devsdk_nvpairs_equal l1 l2 \<longleftrightarrow> mset l1 = mset l2) \<and>
      (nv_name ` set l1 \<noteq> nv_name ` set l2 \<longrightarrow> \<not> devsdk_nvpairs_equal l1 l2) \<and>
      ((\<exists>p \<in> set l1. \<exists>q \<in> set l2. nv_name p = nv_name q \<and> nv_value p \<noteq> nv_value q) \<longrightarrow>
         \<not> devsdk_nvpairs_equal l1 l2))"
proof (intro conjI impI)
  show "devsdk_nvpairs_equal (devsdk_nvpairs_dup l1) l1 \<longleftrightarrow>
      (\<forall>p \<in> set l1. \<forall>q \<in> set l1. nv_name p = nv_name q \<longrightarrow> nv_value p = nv_value q)"
  proof
    assume eq: "devsdk_nvpairs_equal (devsdk_nvpairs_dup l1) l1"
    show "\<forall>p \<in> set l1. \<forall>q \<in> set l1. nv_name p = nv_name q \<longrightarrow> nv_value p = nv_value q"
    proof (intro ballI impI)
      fix p q assume pq: "p \<in> set l1" "q \<in> set l1" "nv_name p = nv_name q"
      from eq pq(1) obtain f where f: "list_found nv_name (nv_name p) l1 = Some f"
        "nv_value p = nv_value f"
        by (auto simp: devsdk_nvpairs_equal_iff devsdk_nvpairs_dup_id)
      from eq pq(2) obtain g where g: "list_found nv_name (nv_name q) l1 = Some g"
        "nv_value q = nv_value g"
        by (auto simp: devsdk_nvpairs_equal_iff devsdk_nvpairs_dup_id)
      from f g pq(3) show "nv_value p = nv_value q" by simp
    qed
  next
    assume fn: "\<forall>p \<in> set l1. \<forall>q \<in> set l1. nv_name p = nv_name q \<longrightarrow> nv_value p = nv_value q"
    have "\<exists>f. list_found nv_name (nv_name l) l1 = Some f \<and> nv_value l = nv_value f"
      if "l \<in> set l1" for l
    proof (cases "list_found nv_name (nv_name l) l1")
      case None
      with that show ?thesis by (simp add: list_found_None)
    next
      case (Some f)
      then have "f \<in> set l1" "nv_name f = nv_name l" by (auto dest: list_found_Some)
      with fn that have "nv_value l = nv_value f" by metis
      with Some show ?thesis by simp
    qed
    then show "devsdk_nvpairs_equal (devsdk_nvpairs_dup l1) l1"
      by (simp add: devsdk_nvpairs_equal_iff devsdk_nvpairs_dup_id)
  qed
next
  assume h: "distinct (map nv_name l1) \<and> length l2 < 2 ^ 32"
  then show "devsdk_nvpairs_equal l1 l2 \<longleftrightarrow> mset l1 = mset l2"
    by (simp add: nvpairs_equal_mset)
next
  assume h: "distinct (map nv_name l1) \<and> length l2 < 2 ^ 32"
    and ne: "nv_name ` set l1 \<noteq> nv_name ` set l2"
  show "\<not> devsdk_nvpairs_equal l1 l2"
  proof
    assume "devsdk_nvpairs_equal l1 l2"
    with h have "mset l1 = mset l2" by (simp add: nvpairs_equal_mset)
    then have "set l1 = set l2" by (rule mset_eq_setD)
    with ne show False by simp
  qed
next
  assume h: "distinct (map nv_name l1) \<and> length l2 < 2 ^ 32"
    and ne: "\<exists>p \<in> set l1. \<exists>q \<in> set l2. nv_name p = nv_name q \<and> nv_value p \<noteq> nv_value q"
  show "\<not> devsdk_nvpairs_equal l1 l2"
  proof
    assume "devsdk_nvpairs_equal l1 l2"
    with h have "mset l1 = mset l2" by (simp add: nvpairs_equal_mset)
    then have s: "set l1 = set l2" by (rule mset_eq_setD)
    from ne obtain p q where pq: "p \<in> set l1" "q \<in> set l2" "nv_name p = nv_name q"
      "nv_value p \<noteq> nv_value q" by blast
    from h have "inj_on nv_name (set l1)" by (simp add: distinct_map)
    with pq(1,2,3) s have "p = q" by (auto dest: inj_onD)
    with pq(4) show False by simp
  qed
qed

text \<open>
  Two names, one value each: the list equals its copy and its reversal, and differs from a
  list with another name.
\<close>

theorem nvpairs_equal_unique_names_witness:
  "devsdk_nvpairs_equal
     (devsdk_nvpairs_dup [\<lparr>nv_name = ''a'', nv_value = ''1''\<rparr>, \<lparr>nv_name = ''b'', nv_value = ''2''\<rparr>])
     [\<lparr>nv_name = ''a'', nv_value = ''1''\<rparr>, \<lparr>nv_name = ''b'', nv_value = ''2''\<rparr>] \<and>
   devsdk_nvpairs_equal
     [\<lparr>nv_name = ''a'', nv_value = ''1''\<rparr>, \<lparr>nv_name = ''b'', nv_value = ''2''\<rparr>]
     [\<lparr>nv_name = ''b'', nv_value = ''2''\<rparr>, \<lparr>nv_name = ''a'', nv_value = ''1''\<rparr>] \<and>
   \<not> devsdk_nvpairs_equal
     [\<lparr>nv_name = ''a'', nv_value = ''1''\<rparr>, \<lparr>nv_name = ''b'', nv_value = ''2''\<rparr>]
     [\<lparr>nv_name = ''a'', nv_value = ''1''\<rparr>, \<lparr>nv_name = ''c'', nv_value = ''2''\<rparr>]"
  using nvpairs_equal_unique_names
      [of "[\<lparr>nv_name = ''a'', nv_value = ''1''\<rparr>, \<lparr>nv_name = ''b'', nv_value = ''2''\<rparr>]"
          "[\<lparr>nv_name = ''b'', nv_value = ''2''\<rparr>, \<lparr>nv_name = ''a'', nv_value = ''1''\<rparr>]"]
    nvpairs_equal_unique_names
      [of "[\<lparr>nv_name = ''a'', nv_value = ''1''\<rparr>, \<lparr>nv_name = ''b'', nv_value = ''2''\<rparr>]"
          "[\<lparr>nv_name = ''a'', nv_value = ''1''\<rparr>, \<lparr>nv_name = ''c'', nv_value = ''2''\<rparr>]"]
  by simp

text \<open>
  Claim C7 as stated fails where a name occurs twice: a list in which the name \<open>a\<close> has
  the values 1 and 2 is not equal to its own copy, and a list with the names \<open>a, a\<close>
  compares equal to one with the names \<open>a, b\<close>.
\<close>

theorem nvpairs_equal_dup_counterexample:
  "\<not> devsdk_nvpairs_equal
       (devsdk_nvpairs_dup [\<lparr>nv_name = ''a'', nv_value = ''1''\<rparr>, \<lparr>nv_name = ''a'', nv_value = ''2''\<rparr>])
       [\<lparr>nv_name = ''a'', nv_value = ''1''\<rparr>, \<lparr>nv_name = ''a'', nv_value = ''2''\<rparr>] \<and>
   devsdk_nvpairs_equal
       [\<lparr>nv_name = ''a'', nv_value = ''1''\<rparr>, \<lparr>nv_name = ''a'', nv_value = ''1''\<rparr>]
       [\<lparr>nv_name = ''a'', nv_value = ''1''\<rparr>, \<lparr>nv_name = ''b'', nv_value = ''2''\<rparr>]"
  by (simp add: devsdk_nvpairs_equal_def LIST_EQUAL_FUNCTION_def pair_equal_def
      devsdk_nvpairs_dup_def)

subsection \<open>Copy of a protocol list\<close>

text \<open>
  Claim C9, amended. \<open>devsdk_protocols_dup\<close> links every copied node in front of the
  nodes copied before it: the copy has the length of the original, and its \<open>i\<close>-th
  element has the protocol name and the properties (the same pairs in the same order) of the
  element \<open>i\<close> places from the end of the original; the properties compare equal under
  \<open>devsdk_nvpairs_equal\<close> when no name occurs twice in them.
\<close>

theorem protocols_dup_reversed:
  "length (devsdk_protocols_dup e) = length e \<and>
   (\<forall>i < length e.
      prot_name (devsdk_protocols_dup e ! i) = prot_name (e ! (length e - 1 - i)) \<and>
      properties (devsdk_protocols_dup e ! i) = properties (e ! (length e - 1 - i)) \<and>
      (distinct (map nv_name (properties (e ! (length e - 1 - i)))) \<longrightarrow>
         devsdk_nvpairs_equal (properties (devsdk_protocols_dup e ! i))
           (properties (e ! (length e - 1 - i)))))"
proof -
  have "devsdk_nvpairs_equal l l" if "distinct (map nv_name l)" for l
    using that list_found_distinct [of nv_name l] by (auto simp: devsdk_nvpairs_equal_iff)
  then show ?thesis
    by (simp add: devsdk_protocols_dup_rev rev_nth)
qed

text \<open>A list of two protocols: the copy starts with the second.\<close>

theorem protocols_dup_reversed_witness:
  "prot_name (devsdk_protocols_dup
      [\<lparr>prot_name = ''modbus'', properties = [\<lparr>nv_name = ''Address'', nv_value = ''1''\<rparr>]\<rparr>,
       \<lparr>prot_name = ''other'', properties = []\<rparr>] ! 0) = ''other'' \<and>
   properties (devsdk_protocols_dup
      [\<lparr>prot_name = ''modbus'', properties = [\<lparr>nv_name = ''Address'', nv_value = ''1''\<rparr>]\<rparr>,
       \<lparr>prot_name = ''other'', properties = []\<rparr>] ! 1) = [\<lparr>nv_name = ''Address'', nv_value = ''1''\<rparr>]"
  using protocols_dup_reversed
      [of "[\<lparr>prot_name = ''modbus'', properties = [\<lparr>nv_name = ''Address'', nv_value = ''1''\<rparr>]\<rparr>,
       \<lparr>prot_name = ''other'', properties = []\<rparr>]"]
  by (simp add: nth_Cons')

text \<open>
  Claim C9 as stated fails on two protocols with different names: the first element of the
  copy does not bear the name of the first element of the original.
\<close>

theorem protocols_dup_order_counterexample:
  "prot_name (devsdk_protocols_dup
      [\<lparr>prot_name = ''modbus'', properties = []\<rparr>, \<lparr>prot_name = ''other'', properties = []\<rparr>] ! 0)
   \<noteq> prot_name
      ([\<lparr>prot_name = ''modbus'', properties = []\<rparr>, \<lparr>prot_name = ''other'', properties = []\<rparr>] ! 0)"
  by (simp add: devsdk_protocols_dup_def devsdk_nvpairs_dup_def)

section \<open>Properties of the service lifecycle\<close>

subsection \<open>Traces and blocks\<close>

lemma trace_emit [simp]: "trace (emit e w) = trace w @ [e]"
  by (simp add: emit_def)

lemma err_emit [simp]: "err (emit e w) = err w"
  by (simp add: emit_def)

lemma svc_emit [simp]: "svc (emit e w) = svc w"
  by (simp add: emit_def)

lemma andthen_Running [simp]: "andthen (Running c) f = f c"
  by (simp add: andthen_def)

lemma andthen_Returned [simp]: "andthen (Returned r) f = Returned r"
  by (simp add: andthen_def)

lemma finish_simps [simp]: "finish (Returned r) = r" "finish (Running r) = r"
  by (simp_all add: finish_def)

subsection \<open>Posting readings\<close>

text \<open>
  Claim C5. A call of \<open>devsdk_post_readings\<close> adds the events \<open>es\<close> to the trace, with at
  most one submission to the thread pool among them. When the device map has no device of the
  name, the call looks the name up, logs the error and does nothing else. When the device is
  there, the command is looked up on its profile and the device is released in the very next
  call; when the resource resolves to no command, the error is logged and nothing else
  follows. The function has no error parameter: the error record and the service are as they
  were.
\<close>

theorem post_readings_at_most_one_work_item:
  "\<exists>es. trace (devsdk_post_readings env devname resname values w) = trace w @ es \<and>
      length (filter is_add_work es) \<le> 1 \<and>
      (svc_devices (svc w) devname = None \<longrightarrow>
         es = [Edgex (Devmap_Device_Byname devname),
               Log LOG_ERROR ''Post readings: no such device %s'']) \<and>
      (\<forall>dev. svc_devices (svc w) devname = Some dev \<longrightarrow>
         take 3 es = [Edgex (Devmap_Device_Byname devname), Edgex (Find_Command resname),
                      Edgex (Device_Release (dev_name dev))] \<and>
         (env_findcommand env resname (dev_profile dev) True = None \<longrightarrow>
            drop 3 es = [Log LOG_ERROR ''Post readings: no such resource %s''])) \<and>
      err (devsdk_post_readings env devname resname values w) = err w \<and>
      svc (devsdk_post_readings env devname resname values w) = svc w"
  by (auto simp: devsdk_post_readings_def Let_def split: option.splits)

text \<open>
  No device \<open>ghost\<close>; no resource \<open>humidity\<close> on the thermostat; and a reading of
  \<open>temperature\<close>, which is submitted once.
\<close>

theorem post_readings_at_most_one_work_item_witness:
  "trace (devsdk_post_readings example_env ''ghost'' ''temperature'' [''21''] example_world) =
     [Edgex (Devmap_Device_Byname ''ghost''), Log LOG_ERROR ''Post readings: no such device %s''] \<and>
   trace (devsdk_post_readings example_env ''thermostat'' ''humidity'' [''21''] example_world) =
     [Edgex (Devmap_Device_Byname ''thermostat''), Edgex (Find_Command ''humidity''),
      Edgex (Device_Release ''thermostat''),
      Log LOG_ERROR ''Post readings: no such resource %s''] \<and>
   filter is_add_work
     (trace (devsdk_post_readings example_env ''thermostat'' ''temperature'' [''21''] example_world)) =
     [Iot (Threadpool_Add_Work ''cooked'')]"
  using post_readings_at_most_one_work_item
      [of example_env "''ghost''" "''temperature''" "[''21'']" example_world]
  by (simp add: devsdk_post_readings_def example_env_def example_world_def example_svc_def)

subsection \<open>Shutdown\<close>

text \<open>
  Claim C6, amended. \<open>devsdk_service_stop\<close> carries out every step of the shutdown whatever
  happens: the trace it adds is the same up to the log line of a failed deregistration, and
  ends with the release of the scheduler, the wait for the thread pool and the final log line;
  in the service the stop flag of the configuration watch is set when there is one, the device
  map is emptied and nothing else is changed. Without a registry the error record is
  \<open>EDGEX_OK\<close> on return; with one, it is whatever the deregistration left in it.
\<close>

theorem service_stop_reports_deregistration:
  "trace (devsdk_service_stop env force w) =
     trace w @ [Log LOG_DEBUG ''Stop device service''] @
     (case svc_scheduler (svc w) of None \<Rightarrow> [] | Some sch \<Rightarrow> [Iot Scheduler_Stop]) @
     (case svc_daemon (svc w) of None \<Rightarrow> [] | Some d \<Rightarrow> [Rest Rest_Server_Destroy]) @
     [Driver (Driver_Stop force), Edgex Devmap_Clear] @
     (case svc_registry (svc w) of
        None \<Rightarrow> []
      | Some registry \<Rightarrow>
          Registry (Registry_Deregister_Service (svc_name (svc w))) #
          (if err (devsdk_service_stop env force w) \<noteq> EDGEX_OK
           then [Log LOG_ERROR ''Unable to deregister service from registry''] else [])) @
     [Iot Scheduler_Free, Iot Threadpool_Wait, Log LOG_INFO ''Stopped device service''] \<and>
   svc (devsdk_service_stop env force w) =
     (case svc_stopconfig (svc w) of
        None \<Rightarrow> (svc w)\<lparr>svc_devices := Map.empty\<rparr>
      | Some flag \<Rightarrow> (svc w)\<lparr>svc_stopconfig := Some True, svc_devices := Map.empty\<rparr>) \<and>
   (svc_registry (svc w) = None \<longrightarrow> err (devsdk_service_stop env force w) = EDGEX_OK) \<and>
   (svc_registry (svc w) \<noteq> None \<and> (\<forall>h. env_deregister_service env h (svc_name (svc w)) = e) \<longrightarrow>
      err (devsdk_service_stop env force w) = e)"
  by (cases "svc_stopconfig (svc w)"; cases "svc_scheduler (svc w)"; cases "svc_daemon (svc w)";
      cases "svc_registry (svc w)")
    (simp_all add: devsdk_service_stop_def Let_def)

text \<open>
  Without a registry, and with one that deregisters the service: both stops report success;
  the second sets the stop flag of the configuration watch and empties the device map.
\<close>

theorem service_stop_reports_deregistration_witness:
  "err (devsdk_service_stop example_env False example_world) = EDGEX_OK \<and>
   err (devsdk_service_stop example_env False
          (example_world\<lparr>svc := example_svc\<lparr>svc_registry := Some (Registry_At ''consul://localhost:8500''),
             svc_stopconfig := Some False\<rparr>\<rparr>))
     = EDGEX_OK \<and>
   svc_stopconfig (svc (devsdk_service_stop example_env False
          (example_world\<lparr>svc := example_svc\<lparr>svc_registry := Some (Registry_At ''consul://localhost:8500''),
             svc_stopconfig := Some False\<rparr>\<rparr>))) = Some True \<and>
   svc_devices (svc (devsdk_service_stop example_env False
          (example_world\<lparr>svc := example_svc\<lparr>svc_registry := Some (Registry_At ''consul://localhost:8500''),
             svc_stopconfig := Some False\<rparr>\<rparr>))) = Map.empty"
  using service_stop_reports_deregistration [where env = example_env and force = False
      and w = example_world and e = EDGEX_OK]
    service_stop_reports_deregistration [where env = example_env and force = False and
       w = "example_world\<lparr>svc := example_svc\<lparr>svc_registry := Some (Registry_At ''consul://localhost:8500''),
             svc_stopconfig := Some False\<rparr>\<rparr>"
       and e = EDGEX_OK]
  by (simp add: example_env_def example_world_def example_svc_def)

text \<open>
  Claim C6 as stated fails when the deregistration fails: its error is what
  \<open>devsdk_service_stop\<close> returns in \<open>*err\<close>.
\<close>

theorem service_stop_error_counterexample:
  "err (devsdk_service_stop
          (example_env\<lparr>env_deregister_service := \<lambda>h name. EDGEX_OTHER 1\<rparr>) False
          (example_world\<lparr>svc := example_svc\<lparr>svc_registry := Some (Registry_At ''consul://localhost:8500'')\<rparr>\<rparr>))
     \<noteq> EDGEX_OK"
  by (simp add: devsdk_service_stop_def example_env_def example_world_def example_svc_def)

subsection \<open>The registry is down\<close>

lemma registry_wait_loop_all_fail:
  assumes down: "\<forall>h. \<not> fst (env_registry_ping env h)"
  shows "unat (retries - 1) = n \<Longrightarrow>
    fst (registry_wait_loop env delay retries w) = 0 \<and>
    trace (snd (registry_wait_loop env delay retries w)) =
      trace w @ concat (replicate n [Registry Registry_Ping, Nanosleep delay]) @
        [Registry Registry_Ping] \<and>
    svc (snd (registry_wait_loop env delay retries w)) = svc w \<and>
    world.more (snd (registry_wait_loop env delay retries w)) = world.more w"
proof (induction n arbitrary: retries w)
  case 0
  then have z: "retries - 1 = 0" by (simp add: unat_eq_zero)
  obtain ok e where p: "env_registry_ping env (trace w) = (ok, e)" by (cases "env_registry_ping env (trace w)")
  with down have "\<not> ok" by (metis fst_conv)
  with p z show ?case
    by (subst (1 2 3 4) registry_wait_loop.simps) (simp add: emit_def)
next
  case (Suc n)
  then have nz: "retries - 1 \<noteq> 0" by (auto simp: unat_eq_zero)
  have "unat (retries - 1 - 1) = unat (retries - 1) - 1" by (rule unat_minus_one [OF nz])
  also have "\<dots> = n" by (simp only: Suc.prems diff_Suc_1)
  finally have m: "unat (retries - 1 - 1) = n" .
  obtain ok e where p: "env_registry_ping env (trace w) = (ok, e)" by (cases "env_registry_ping env (trace w)")
  with down have nok: "\<not> ok" by (metis fst_conv)
  have step: "registry_wait_loop env delay retries w =
      registry_wait_loop env delay (retries - 1)
        (emit (Nanosleep delay) (emit (Registry Registry_Ping) (w\<lparr>err := e\<rparr>)))"
    using p nok nz by (subst registry_wait_loop.simps) (simp del: diff_eq_eq)
  show ?case
    unfolding step using Suc.IH [OF m] by (simp add: emit_def)
qed

lemma unat_of_positive_sint: "unat x = nat (sint x)" if "0 < sint x" for x :: "32 word"
proof -
  have s: "sint x = signed_take_bit 31 (uint x)" by (simp add: sint_uint)
  with that have "\<not> signed_take_bit 31 (uint x) < 0" by linarith
  then have nb: "\<not> bit (uint x) 31" by simp
  then have "signed_take_bit 31 (uint x) = take_bit 31 (uint x)"
    by (rule signed_take_bit_eq_if_positive)
  moreover have a: "take_bit 32 (uint x) = uint x"
    by (rule take_bit_int_eq_self) (use uint_lt2p [of x] in simp_all)
  have "take_bit (Suc 31) (uint x) = 2 ^ 31 * of_bool (bit (uint x) 31) + take_bit 31 (uint x)"
    by (rule take_bit_Suc_from_most)
  with nb a have "uint x = take_bit 31 (uint x)" by simp
  ultimately have "sint x = uint x" using s by simp
  then show ?thesis by simp
qed

lemma registry_retries_value:
  "unat (registry_retries env) =
     (case env_getenv env ''edgex_registry_retry_count'' of
        None \<Rightarrow> 5
      | Some errc \<Rightarrow> if 0 < sint (env_atoi env errc) then nat (sint (env_atoi env errc)) else 5)"
  by (simp add: registry_retries_def Let_def unat_of_positive_sint split: option.splits)

lemma registry_retries_pos: "registry_retries env \<noteq> 0"
  by (auto simp: registry_retries_def Let_def split: option.splits)

lemma ss_wait_registry_down:
  assumes reg: "svc_registry (svc f) = Some r"
    and down: "\<forall>h. \<not> fst (env_registry_ping env h)"
  shows "\<exists>f'. ss_wait_registry env f = Returned f' \<and> err f' = EDGEX_REMOTE_SERVER_DOWN \<and>
     svc f' = svc f \<and>
     trace f' = trace f @
       concat (replicate (unat (registry_retries env) - 1)
                 [Registry Registry_Ping, Nanosleep (registry_delay env)]) @
       [Registry Registry_Ping, Log LOG_ERROR ''registry service not running at %s'']"
proof -
  have n: "unat (registry_retries env - 1) = unat (registry_retries env) - 1"
    by (rule unat_minus_one [OF registry_retries_pos])
  obtain k f1 where l: "registry_wait_loop env (registry_delay env) (registry_retries env) f = (k, f1)"
    by (cases "registry_wait_loop env (registry_delay env) (registry_retries env) f")
  from registry_wait_loop_all_fail [OF down n, of "registry_delay env" f] l
  have "k = 0" "svc f1 = svc f"
    "trace f1 = trace f @
       concat (replicate (unat (registry_retries env) - 1)
                 [Registry Registry_Ping, Nanosleep (registry_delay env)]) @
       [Registry Registry_Ping]"
    by simp_all
  with reg l show ?thesis
    by (simp add: ss_wait_registry_def)
qed

text \<open>
  Claim C3. The service has a registry URL: \<open>u\<close>, given as such or, when the URL given is
  empty, read from the configuration file. The registry handle is obtained and every ping
  fails. Then \<open>devsdk_service_start\<close> returns \<open>EDGEX_REMOTE_SERVER_DOWN\<close>, and all it has
  done is: the start of the thread pool, the look-up of the registry, \<open>N\<close> pings with a
  sleep of \<open>D\<close> between one ping and the next, and the log of the error; no REST server is
  created. \<open>N\<close> is 5 and \<open>D\<close> one second, unless \<open>edgex_registry_retry_count\<close>
  (\<open>edgex_registry_retry_wait\<close>) is set to a number greater than 0, which is then taken.
\<close>

theorem registry_down_fails_start:
  assumes url: "svc_regURL (svc w) = Some url"
    and fromfile: "url = [] \<longrightarrow>
       (\<forall>h. env_loadConfig env h (svc_confdir (svc w)) (svc_profile (svc w)) = (cfg, EDGEX_OK)) \<and>
       env_getRegURL env cfg = Some u"
    and given: "url \<noteq> [] \<longrightarrow> u = url"
    and reg: "\<forall>h. env_get_registry env h u \<noteq> None"
    and down: "\<forall>h. \<not> fst (env_registry_ping env h)"
  shows "err (devsdk_service_start env w) = EDGEX_REMOTE_SERVER_DOWN \<and>
     trace (devsdk_service_start env w) =
       trace w @ [Iot Iot_Time_Msecs, Iot Iot_Init, Iot Threadpool_Start] @
       (if url = [] then [Config (Load_Config (svc_confdir (svc w)) (svc_profile (svc w)))] else []) @
       [Registry (Registry_Get_Registry u)] @
       concat (replicate (unat (registry_retries env) - 1)
                 [Registry Registry_Ping, Nanosleep (registry_delay env)]) @
       [Registry Registry_Ping, Log LOG_ERROR ''registry service not running at %s''] \<and>
     svc_daemon (svc (devsdk_service_start env w)) = svc_daemon (svc w) \<and>
     unat (registry_retries env) =
       (case env_getenv env ''edgex_registry_retry_count'' of
          None \<Rightarrow> 5
        | Some errc \<Rightarrow> if 0 < sint (env_atoi env errc) then nat (sint (env_atoi env errc)) else 5) \<and>
     registry_delay env =
       \<lparr>tv_sec =
          (case env_getenv env ''edgex_registry_retry_wait'' of
             None \<Rightarrow> 1
           | Some errw \<Rightarrow> if 0 < sint (env_atoi env errw) then sint (env_atoi env errw) else 1),
        tv_nsec = 0\<rparr>"
proof -
  define f0 :: start_frame where
    "f0 = \<lparr>svc = svc w, err = err w, trace = trace w,
            fr_config = None, fr_uploadConfig = False, fr_confpairs = []\<rparr>"
  have "\<exists>f1. ss_begin env f0 = Running f1 \<and>
      trace f1 = trace w @ [Iot Iot_Time_Msecs, Iot Iot_Init, Iot Threadpool_Start] \<and>
      svc f1 = (svc w)\<lparr>svc_starttime := env_time_msecs env (trace w)\<rparr>"
    by (simp add: ss_begin_def f0_def Let_def)
  then obtain f1 where b: "ss_begin env f0 = Running f1"
    and f1: "trace f1 = trace w @ [Iot Iot_Time_Msecs, Iot Iot_Init, Iot Threadpool_Start]"
      "svc f1 = (svc w)\<lparr>svc_starttime := env_time_msecs env (trace w)\<rparr>"
    by blast
  have "\<exists>f2. ss_find_registry env f1 = Running f2 \<and>
      trace f2 = trace f1 @
        (if url = [] then [Config (Load_Config (svc_confdir (svc w)) (svc_profile (svc w)))] else []) @
        [Registry (Registry_Get_Registry u)] \<and>
      svc_registry (svc f2) \<noteq> None \<and> svc_daemon (svc f2) = svc_daemon (svc w)"
  proof (cases "url = []")
    case True
    with url fromfile f1 reg show ?thesis
      by (simp add: ss_find_registry_def Let_def)
  next
    case False
    with url given f1 reg show ?thesis
      by (simp add: ss_find_registry_def Let_def)
  qed
  then obtain f2 where g: "ss_find_registry env f1 = Running f2"
    and f2: "trace f2 = trace f1 @
        (if url = [] then [Config (Load_Config (svc_confdir (svc w)) (svc_profile (svc w)))] else []) @
        [Registry (Registry_Get_Registry u)]"
      "svc_registry (svc f2) \<noteq> None" "svc_daemon (svc f2) = svc_daemon (svc w)"
    by blast
  from f2(2) obtain rr where rr: "svc_registry (svc f2) = Some rr" by blast
  from ss_wait_registry_down [OF rr down] obtain f3 where
    d: "ss_wait_registry env f2 = Returned f3" "err f3 = EDGEX_REMOTE_SERVER_DOWN" "svc f3 = svc f2"
    "trace f3 = trace f2 @
       concat (replicate (unat (registry_retries env) - 1)
                 [Registry Registry_Ping, Nanosleep (registry_delay env)]) @
       [Registry Registry_Ping, Log LOG_ERROR ''registry service not running at %s'']"
    by blast
  have res: "devsdk_service_start env w = f3"
    using b g d(1) by (simp add: devsdk_service_start_def f0_def [symmetric])
  have "registry_delay env =
       \<lparr>tv_sec =
          (case env_getenv env ''edgex_registry_retry_wait'' of
             None \<Rightarrow> 1
           | Some errw \<Rightarrow> if 0 < sint (env_atoi env errw) then sint (env_atoi env errw) else 1),
        tv_nsec = 0\<rparr>"
    by (simp add: registry_delay_def Let_def split: option.splits)
  then show ?thesis
    unfolding res using d f1 f2 registry_retries_value [of env] by simp
qed

text \<open>With \<open>edgex_registry_retry_count=2\<close>: two pings, one second apart.\<close>

theorem registry_down_fails_start_witness:
  "err (devsdk_service_start
          (example_env
             \<lparr>env_getenv := \<lambda>var. if var = ''edgex_registry_retry_count'' then Some ''2'' else None,
              env_atoi := \<lambda>s. if s = ''2'' then 2 else 0,
              env_registry_ping := \<lambda>h. (False, EDGEX_OTHER 7)\<rparr>)
          (example_world\<lparr>svc := example_svc\<lparr>svc_regURL := Some ''consul://localhost:8500''\<rparr>\<rparr>))
     = EDGEX_REMOTE_SERVER_DOWN \<and>
   trace (devsdk_service_start
          (example_env
             \<lparr>env_getenv := \<lambda>var. if var = ''edgex_registry_retry_count'' then Some ''2'' else None,
              env_atoi := \<lambda>s. if s = ''2'' then 2 else 0,
              env_registry_ping := \<lambda>h. (False, EDGEX_OTHER 7)\<rparr>)
          (example_world\<lparr>svc := example_svc\<lparr>svc_regURL := Some ''consul://localhost:8500''\<rparr>\<rparr>))
     = [Iot Iot_Time_Msecs, Iot Iot_Init, Iot Threadpool_Start,
        Registry (Registry_Get_Registry ''consul://localhost:8500''),
        Registry Registry_Ping, Nanosleep \<lparr>tv_sec = 1, tv_nsec = 0\<rparr>,
        Registry Registry_Ping, Log LOG_ERROR ''registry service not running at %s'']"
  using registry_down_fails_start
      [of "example_world\<lparr>svc := example_svc\<lparr>svc_regURL := Some ''consul://localhost:8500''\<rparr>\<rparr>"
          "''consul://localhost:8500''"
          "example_env
             \<lparr>env_getenv := \<lambda>var. if var = ''edgex_registry_retry_count'' then Some ''2'' else None,
              env_atoi := \<lambda>s. if s = ''2'' then 2 else 0,
              env_registry_ping := \<lambda>h. (False, EDGEX_OTHER 7)\<rparr>"
          None "''consul://localhost:8500''"]
  by (simp add: example_env_def example_world_def example_svc_def)

subsection \<open>The ping probe and the blocks of \<open>startConfigured\<close>\<close>

lemma more_emit [simp]: "world.more (emit e w) = world.more w"
  by (simp add: emit_def)

lemma finish_andthen_ok:
  assumes "err (finish (andthen m f)) = EDGEX_OK"
    and "\<And>r. m = Returned r \<Longrightarrow> err r \<noteq> EDGEX_OK"
  obtains c where "m = Running c" "finish (andthen m f) = finish (f c)"
  using assms by (cases m) auto

lemma ping_client_loop_quiet:
  assumes P: "\<And>e. is_ping_event e \<Longrightarrow> \<not> P e"
  shows "filter P (trace (snd (ping_client_loop env sname host port retries delay w))) =
           filter P (trace w) \<and>
         svc (snd (ping_client_loop env sname host port retries delay w)) = svc w \<and>
         world.more (snd (ping_client_loop env sname host port retries delay w)) = world.more w \<and>
         (fst (ping_client_loop env sname host port retries delay w) \<longrightarrow>
            err (snd (ping_client_loop env sname host port retries delay w)) = EDGEX_OK)"
proof (induction env sname host port retries delay w rule: ping_client_loop.induct)
  case (1 env sname host port retries delay w)
  show ?case
    by (subst (1 2 3 4 5) ping_client_loop.simps) (use 1 in \<open>simp add: Let_def P\<close>)
qed

lemma ping_client_quiet:
  assumes P: "\<And>e. is_ping_event e \<Longrightarrow> \<not> P e"
  shows "filter P (trace (snd (ping_client env sname ep retries delay w))) = filter P (trace w) \<and>
         svc (snd (ping_client env sname ep retries delay w)) = svc w \<and>
         world.more (snd (ping_client env sname ep retries delay w)) = world.more w \<and>
         (fst (ping_client env sname ep retries delay w) \<longleftrightarrow>
            err (snd (ping_client env sname ep retries delay w)) = EDGEX_OK)"
proof -
  note l = ping_client_loop_quiet [where P = P, OF P]
  show ?thesis
  proof (cases "ep_host ep")
    case None
    then show ?thesis by (simp add: ping_client_def P)
  next
    case (Some host)
    show ?thesis
    proof (cases "ep_port ep = 0")
      case True
      with Some show ?thesis by (simp add: ping_client_def P)
    next
      case False
      with Some l [where env = env and sname = sname and host = host and port = "ep_port ep"
          and retries = retries and delay = delay and w = w] show ?thesis
        by (auto simp: ping_client_def P split: prod.splits)
    qed
  qed
qed

lemma sc_wait_services_cases:
  assumes P: "\<And>e. is_ping_event e \<Longrightarrow> \<not> P e"
  shows "case sc_wait_services env w of
           Returned r \<Rightarrow> err r \<noteq> EDGEX_OK \<and> filter P (trace r) = filter P (trace w)
         | Running c \<Rightarrow>
             err c = EDGEX_OK \<and> filter P (trace c) = filter P (trace w) \<and>
             svc c = (svc w)\<lparr>svc_adminstate := UNLOCKED, svc_opstate := ENABLED\<rparr> \<and>
             world.more c = world.more w"
proof -
  define w0 where "w0 = w\<lparr>svc := (svc w)\<lparr>svc_adminstate := UNLOCKED, svc_opstate := ENABLED\<rparr>\<rparr>"
  define cfg where "cfg = svc_config (svc w0)"
  define p1 where "p1 = ping_client env ''core-data'' (ep_data (cf_endpoints cfg))
      (si_connectretries (cf_service cfg)) (si_timeout (cf_service cfg)) w0"
  define p2 where "p2 = ping_client env ''core-metadata'' (ep_metadata (cf_endpoints cfg))
      (si_connectretries (cf_service cfg)) (si_timeout (cf_service cfg)) (snd p1)"
  have q1: "filter P (trace (snd p1)) = filter P (trace w0)" "svc (snd p1) = svc w0"
    "world.more (snd p1) = world.more w0" "fst p1 \<longleftrightarrow> err (snd p1) = EDGEX_OK"
    unfolding p1_def using ping_client_quiet [where P = P, OF P] by blast+
  have q2: "filter P (trace (snd p2)) = filter P (trace (snd p1))" "svc (snd p2) = svc (snd p1)"
    "world.more (snd p2) = world.more (snd p1)" "fst p2 \<longleftrightarrow> err (snd p2) = EDGEX_OK"
    unfolding p2_def using ping_client_quiet [where P = P, OF P] by blast+
  have "sc_wait_services env w =
      (if \<not> fst p1 then Returned (snd p1)
       else if \<not> fst p2 then Returned (snd p2) else Running ((snd p2)\<lparr>err := EDGEX_OK\<rparr>))"
    by (simp add: sc_wait_services_def Let_def p1_def p2_def cfg_def w0_def split: prod.splits)
  then show ?thesis
    using q1 q2 by (simp add: w0_def)
qed

lemma sc_register_deviceservice_landmark:
  "case sc_register_deviceservice env w of
     Returned r \<Rightarrow> err r \<noteq> EDGEX_OK
   | Running c \<Rightarrow> filter landmark (trace c) = filter landmark (trace w) \<and> svc c = svc w"
  by (auto simp: sc_register_deviceservice_def sc_create_deviceservice_def
      sc_update_addressable_def Let_def split: prod.splits option.splits)

lemma sc_load_devices_landmark:
  "case sc_load_devices env w of
     Returned r \<Rightarrow> err r \<noteq> EDGEX_OK
   | Running c \<Rightarrow>
       filter landmark (trace c) = filter landmark (trace w) \<and>
       svc_config (svc c) = svc_config (svc w)"
  by (auto simp: sc_load_devices_def Let_def split: prod.splits)

lemma sc_start_rest_landmark:
  "case sc_start_rest env w of
     Returned r \<Rightarrow> err r \<noteq> EDGEX_OK
   | Running c \<Rightarrow>
       filter landmark (trace c) =
         filter landmark (trace w) @ [Rest (Register_Handler EDGEX_DEV_API_CALLBACK [PUT, POST, DELETE])] \<and>
       svc_config (svc c) = svc_config (svc w)"
  by (auto simp: sc_start_rest_def Let_def split: prod.splits)

lemma sc_configured_devices_landmark:
  "case sc_configured_devices env config w of
     Returned r \<Rightarrow> err r \<noteq> EDGEX_OK
   | Running c \<Rightarrow>
       filter landmark (trace c) =
         filter landmark (trace w) @
         (case config of None \<Rightarrow> [] | Some table \<Rightarrow> [Edgex Process_Configured_Devices]) \<and>
       svc_config (svc c) = svc_config (svc w)"
  by (auto simp: sc_configured_devices_def Let_def split: prod.splits option.splits)

lemma sc_driver_init_landmark:
  "case sc_driver_init env w of
     Returned r \<Rightarrow> err r \<noteq> EDGEX_OK
   | Running c \<Rightarrow>
       filter landmark (trace c) =
         filter landmark (trace w) @ [Driver (Driver_Init (cf_driverconf (svc_config (svc w))))] \<and>
       svc_config (svc c) = svc_config (svc w)"
  by (auto simp: sc_driver_init_def Let_def)

lemma sc_watchers_and_handlers_landmark:
  "case sc_watchers_and_handlers env w of
     Returned r \<Rightarrow> err r \<noteq> EDGEX_OK
   | Running c \<Rightarrow>
       filter landmark (trace c) =
         filter landmark (trace w) @
         [Rest (Register_Handler EDGEX_DEV_API_DEVICE [GET, PUT, POST]),
          Rest (Register_Handler EDGEX_DEV_API_DISCOVERY [POST]),
          Rest (Register_Handler EDGEX_DEV_API_METRICS [GET]),
          Rest (Register_Handler EDGEX_DEV_API_CONFIG [GET]),
          Rest (Register_Handler EDGEX_DEV_API_VERSION [GET]),
          Rest (Register_Handler EDGEX_DEV_API_PING [GET])] \<and>
       svc_config (svc c) = svc_config (svc w)"
  by (auto simp: sc_watchers_and_handlers_def Let_def split: prod.splits)

lemma sc_register_service_landmark:
  "filter landmark (trace (finish (sc_register_service env w))) = filter landmark (trace w)"
  by (auto simp: sc_register_service_def Let_def split: option.splits)

subsection \<open>The order of bring-up\<close>

lemma landmark_not_ping: "is_ping_event e \<Longrightarrow> \<not> landmark e"
  by (cases e) simp_all

text \<open>
  Claim C1. In a run of \<open>startConfigured\<close> that ends with \<open>EDGEX_OK\<close>, the handler
  registrations, the processing of the configured devices and the initialisation of the
  driver are exactly these calls, in this order: the callback handler is registered; then the
  configured devices are processed (when there is a configuration file); then the driver is
  initialised; then the handlers for device, discovery, metrics, config, version and ping are
  registered.
\<close>

theorem bringup_order:
  assumes ok: "err (startConfigured env config w) = EDGEX_OK"
  shows "filter landmark (trace (startConfigured env config w)) =
     filter landmark (trace w) @
     [Rest (Register_Handler EDGEX_DEV_API_CALLBACK [PUT, POST, DELETE])] @
     (case config of None \<Rightarrow> [] | Some table \<Rightarrow> [Edgex Process_Configured_Devices]) @
     [Driver (Driver_Init (cf_driverconf (svc_config (svc w)))),
      Rest (Register_Handler EDGEX_DEV_API_DEVICE [GET, PUT, POST]),
      Rest (Register_Handler EDGEX_DEV_API_DISCOVERY [POST]),
      Rest (Register_Handler EDGEX_DEV_API_METRICS [GET]),
      Rest (Register_Handler EDGEX_DEV_API_CONFIG [GET]),
      Rest (Register_Handler EDGEX_DEV_API_VERSION [GET]),
      Rest (Register_Handler EDGEX_DEV_API_PING [GET])]"
proof -
  note s1 = sc_wait_services_cases [where P = landmark and env = env and w = w, OF landmark_not_ping]
  from ok obtain w1 where r1: "sc_wait_services env w = Running w1"
    and ok1: "err (finish
        (andthen (sc_register_deviceservice env w1) (\<lambda>w.
         andthen (sc_load_devices env w) (\<lambda>w.
         andthen (sc_start_rest env w) (\<lambda>w.
         andthen (sc_configured_devices env config w) (\<lambda>w.
         andthen (sc_driver_init env w) (\<lambda>w.
         andthen (sc_watchers_and_handlers env w) (\<lambda>w.
         sc_register_service env w)))))))) = EDGEX_OK"
    and eq1: "startConfigured env config w = finish
        (andthen (sc_register_deviceservice env w1) (\<lambda>w.
         andthen (sc_load_devices env w) (\<lambda>w.
         andthen (sc_start_rest env w) (\<lambda>w.
         andthen (sc_configured_devices env config w) (\<lambda>w.
         andthen (sc_driver_init env w) (\<lambda>w.
         andthen (sc_watchers_and_handlers env w) (\<lambda>w.
         sc_register_service env w)))))))"
    unfolding startConfigured_def using s1
    by (cases "sc_wait_services env w") auto
  from s1 r1 have f1: "filter landmark (trace w1) = filter landmark (trace w)"
    "svc_config (svc w1) = svc_config (svc w)" by simp_all
  note s2 = sc_register_deviceservice_landmark [where env = env and w = w1]
  from ok1 obtain w2 where r2: "sc_register_deviceservice env w1 = Running w2"
    and ok2: "err (finish
        (andthen (sc_load_devices env w2) (\<lambda>w.
         andthen (sc_start_rest env w) (\<lambda>w.
         andthen (sc_configured_devices env config w) (\<lambda>w.
         andthen (sc_driver_init env w) (\<lambda>w.
         andthen (sc_watchers_and_handlers env w) (\<lambda>w.
         sc_register_service env w))))))) = EDGEX_OK"
    using s2 by (cases "sc_register_deviceservice env w1") auto
  from s2 r2 f1 have f2: "filter landmark (trace w2) = filter landmark (trace w)"
    "svc_config (svc w2) = svc_config (svc w)" by simp_all
  note s3 = sc_load_devices_landmark [where env = env and w = w2]
  from ok2 obtain w3 where r3: "sc_load_devices env w2 = Running w3"
    and ok3: "err (finish
        (andthen (sc_start_rest env w3) (\<lambda>w.
         andthen (sc_configured_devices env config w) (\<lambda>w.
         andthen (sc_driver_init env w) (\<lambda>w.
         andthen (sc_watchers_and_handlers env w) (\<lambda>w.
         sc_register_service env w)))))) = EDGEX_OK"
    using s3 by (cases "sc_load_devices env w2") auto
  from s3 r3 f2 have f3: "filter landmark (trace w3) = filter landmark (trace w)"
    "svc_config (svc w3) = svc_config (svc w)" by simp_all
  note s4 = sc_start_rest_landmark [where env = env and w = w3]
  from ok3 obtain w4 where r4: "sc_start_rest env w3 = Running w4"
    and ok4: "err (finish
        (andthen (sc_configured_devices env config w4) (\<lambda>w.
         andthen (sc_driver_init env w) (\<lambda>w.
         andthen (sc_watchers_and_handlers env w) (\<lambda>w.
         sc_register_service env w))))) = EDGEX_OK"
    using s4 by (cases "sc_start_rest env w3") auto
  from s4 r4 f3 have f4: "filter landmark (trace w4) =
      filter landmark (trace w) @ [Rest (Register_Handler EDGEX_DEV_API_CALLBACK [PUT, POST, DELETE])]"
    "svc_config (svc w4) = svc_config (svc w)" by simp_all
  note s5 = sc_configured_devices_landmark [where env = env and config = config and w = w4]
  from ok4 obtain w5 where r5: "sc_configured_devices env config w4 = Running w5"
    and ok5: "err (finish
        (andthen (sc_driver_init env w5) (\<lambda>w.
         andthen (sc_watchers_and_handlers env w) (\<lambda>w.
         sc_register_service env w)))) = EDGEX_OK"
    using s5 by (cases "sc_configured_devices env config w4") auto
  from s5 r5 f4 have f5: "filter landmark (trace w5) =
      filter landmark (trace w) @ [Rest (Register_Handler EDGEX_DEV_API_CALLBACK [PUT, POST, DELETE])] @
      (case config of None \<Rightarrow> [] | Some table \<Rightarrow> [Edgex Process_Configured_Devices])"
    "svc_config (svc w5) = svc_config (svc w)" by simp_all
  note s6 = sc_driver_init_landmark [where env = env and w = w5]
  from ok5 obtain w6 where r6: "sc_driver_init env w5 = Running w6"
    and ok6: "err (finish
        (andthen (sc_watchers_and_handlers env w6) (\<lambda>w.
         sc_register_service env w))) = EDGEX_OK"
    using s6 by (cases "sc_driver_init env w5") auto
  from s6 r6 f5 have f6: "filter landmark (trace w6) =
      filter landmark (trace w) @ [Rest (Register_Handler EDGEX_DEV_API_CALLBACK [PUT, POST, DELETE])] @
      (case config of None \<Rightarrow> [] | Some table \<Rightarrow> [Edgex Process_Configured_Devices]) @
      [Driver (Driver_Init (cf_driverconf (svc_config (svc w))))]"
    "svc_config (svc w6) = svc_config (svc w)" by simp_all
  note s7 = sc_watchers_and_handlers_landmark [where env = env and w = w6]
  from ok6 obtain w7 where r7: "sc_watchers_and_handlers env w6 = Running w7"
    using s7 by (cases "sc_watchers_and_handlers env w6") auto
  from s7 r7 f6 have f7: "filter landmark (trace w7) =
      filter landmark (trace w) @ [Rest (Register_Handler EDGEX_DEV_API_CALLBACK [PUT, POST, DELETE])] @
      (case config of None \<Rightarrow> [] | Some table \<Rightarrow> [Edgex Process_Configured_Devices]) @
      [Driver (Driver_Init (cf_driverconf (svc_config (svc w)))),
       Rest (Register_Handler EDGEX_DEV_API_DEVICE [GET, PUT, POST]),
       Rest (Register_Handler EDGEX_DEV_API_DISCOVERY [POST]),
       Rest (Register_Handler EDGEX_DEV_API_METRICS [GET]),
       Rest (Register_Handler EDGEX_DEV_API_CONFIG [GET]),
       Rest (Register_Handler EDGEX_DEV_API_VERSION [GET]),
       Rest (Register_Handler EDGEX_DEV_API_PING [GET])]" by simp
  have "startConfigured env config w = finish (sc_register_service env w7)"
    unfolding eq1 by (simp add: r2 r3 r4 r5 r6 r7)
  then show ?thesis
    using sc_register_service_landmark [where env = env and w = w7] f7 by simp
qed

text \<open>The equations that evaluate \<open>startConfigured\<close> on a given service and environment.\<close>

lemmas startConfigured_unfold =
  startConfigured_def sc_wait_services_def sc_register_deviceservice_def
  sc_create_deviceservice_def sc_update_addressable_def sc_load_devices_def sc_start_rest_def
  sc_configured_devices_def sc_driver_init_def sc_watchers_and_handlers_def
  sc_register_service_def ping_client_def ping_client_loop.simps myhost_def Let_def

text \<open>The example service comes up, with a configuration file, in the example environment.\<close>

theorem bringup_order_witness:
  "err (startConfigured example_env (Some (Toml_Table ''configuration.toml'')) example_world) = EDGEX_OK \<and>
   filter landmark
     (trace (startConfigured example_env (Some (Toml_Table ''configuration.toml'')) example_world)) =
     [Rest (Register_Handler EDGEX_DEV_API_CALLBACK [PUT, POST, DELETE]),
      Edgex Process_Configured_Devices,
      Driver (Driver_Init []),
      Rest (Register_Handler EDGEX_DEV_API_DEVICE [GET, PUT, POST]),
      Rest (Register_Handler EDGEX_DEV_API_DISCOVERY [POST]),
      Rest (Register_Handler EDGEX_DEV_API_METRICS [GET]),
      Rest (Register_Handler EDGEX_DEV_API_CONFIG [GET]),
      Rest (Register_Handler EDGEX_DEV_API_VERSION [GET]),
      Rest (Register_Handler EDGEX_DEV_API_PING [GET])]"
proof -
  have ok: "err (startConfigured example_env (Some (Toml_Table ''configuration.toml'')) example_world)
      = EDGEX_OK"
    by (simp add: startConfigured_unfold example_env_def example_world_def example_svc_def)
  from ok bringup_order [OF ok] show ?thesis
    by (simp add: example_world_def example_svc_def)
qed

subsection \<open>The device service in metadata\<close>

lemma finish_andthen_quiet:
  assumes "\<And>c. m = Running c \<Longrightarrow> filter P (trace (finish (f c))) = filter P (trace c)"
  shows "filter P (trace (finish (andthen m f))) = filter P (trace (finish m))"
  using assms by (cases m) simp_all

lemma tracked_not_ping: "is_ping_event e \<Longrightarrow> \<not> (reconcile_event e \<or> is_put_config e)"
  by (cases e) simp_all

lemma sc_load_devices_quiet:
  assumes "\<And>e. P e \<Longrightarrow> reconcile_event e \<or> is_put_config e"
  shows "filter P (trace (finish (sc_load_devices env w))) = filter P (trace w)"
proof -
  have np: "\<not> P e" if "\<not> reconcile_event e" "\<not> is_put_config e" for e
    using assms that by blast
  show ?thesis
    by (simp add: sc_load_devices_def Let_def np split: prod.splits)
qed

lemma sc_start_rest_quiet:
  assumes "\<And>e. P e \<Longrightarrow> reconcile_event e \<or> is_put_config e"
  shows "filter P (trace (finish (sc_start_rest env w))) = filter P (trace w)"
proof -
  have np: "\<not> P e" if "\<not> reconcile_event e" "\<not> is_put_config e" for e
    using assms that by blast
  show ?thesis
    by (simp add: sc_start_rest_def Let_def np split: prod.splits)
qed

lemma sc_configured_devices_quiet:
  assumes "\<And>e. P e \<Longrightarrow> reconcile_event e \<or> is_put_config e"
  shows "filter P (trace (finish (sc_configured_devices env config w))) = filter P (trace w)"
proof -
  have np: "\<not> P e" if "\<not> reconcile_event e" "\<not> is_put_config e" for e
    using assms that by blast
  show ?thesis
    by (simp add: sc_configured_devices_def Let_def np split: prod.splits option.splits)
qed

lemma sc_driver_init_quiet:
  assumes "\<And>e. P e \<Longrightarrow> reconcile_event e \<or> is_put_config e"
  shows "filter P (trace (finish (sc_driver_init env w))) = filter P (trace w)"
proof -
  have np: "\<not> P e" if "\<not> reconcile_event e" "\<not> is_put_config e" for e
    using assms that by blast
  show ?thesis
    by (simp add: sc_driver_init_def Let_def np)
qed

lemma sc_watchers_and_handlers_quiet:
  assumes "\<And>e. P e \<Longrightarrow> reconcile_event e \<or> is_put_config e"
  shows "filter P (trace (finish (sc_watchers_and_handlers env w))) = filter P (trace w)"
proof -
  have np: "\<not> P e" if "\<not> reconcile_event e" "\<not> is_put_config e" for e
    using assms that by blast
  show ?thesis
    by (simp add: sc_watchers_and_handlers_def Let_def np split: prod.splits)
qed

lemma sc_register_service_quiet:
  assumes "\<And>e. P e \<Longrightarrow> reconcile_event e \<or> is_put_config e"
  shows "filter P (trace (finish (sc_register_service env w))) = filter P (trace w)"
proof -
  have np: "\<not> P e" if "\<not> reconcile_event e" "\<not> is_put_config e" for e
    using assms that by blast
  show ?thesis
    by (simp add: sc_register_service_def Let_def np split: option.splits)
qed

text \<open>The blocks of \<open>startConfigured\<close> after the registration in metadata.\<close>

lemma sc_after_register_quiet:
  assumes P: "\<And>e. P e \<Longrightarrow> reconcile_event e \<or> is_put_config e"
  shows "filter P (trace (finish
        (andthen (sc_load_devices env w) (\<lambda>w.
         andthen (sc_start_rest env w) (\<lambda>w.
         andthen (sc_configured_devices env config w) (\<lambda>w.
         andthen (sc_driver_init env w) (\<lambda>w.
         andthen (sc_watchers_and_handlers env w) (\<lambda>w.
         sc_register_service env w)))))))) = filter P (trace w)"
  by (simp add: finish_andthen_quiet
      sc_load_devices_quiet [where P = P, OF P] sc_start_rest_quiet [where P = P, OF P]
      sc_configured_devices_quiet [where P = P, OF P] sc_driver_init_quiet [where P = P, OF P]
      sc_watchers_and_handlers_quiet [where P = P, OF P]
      sc_register_service_quiet [where P = P, OF P])

lemma reconcile_not_ping: "is_ping_event e \<Longrightarrow> \<not> reconcile_event e"
  by (cases e) simp_all

text \<open>What the registration block adds to the trace, by what metadata holds.\<close>

lemma sc_register_existing:
  assumes ex: "\<forall>h. env_get_deviceservice env h (svc_name (svc w)) = (Some ds, EDGEX_OK)"
  shows "case sc_register_deviceservice env w of
      Returned r \<Rightarrow>
        err r \<noteq> EDGEX_OK \<and>
        (ad_port (ds_addressable ds) \<noteq> si_port (cf_service (svc_config (svc w))) \<or>
         ad_address (ds_addressable ds) \<noteq> myhost env (svc w)) \<and>
        filter reconcile_event (trace r) =
          filter reconcile_event (trace w) @
          [Metadata (Get_DeviceService (svc_name (svc w))),
           Metadata (Update_Addressable ((ds_addressable ds)
              \<lparr>ad_port := si_port (cf_service (svc_config (svc w))),
               ad_address := myhost env (svc w)\<rparr>))]
    | Running c \<Rightarrow>
        filter reconcile_event (trace c) =
          filter reconcile_event (trace w) @
          (if ad_port (ds_addressable ds) \<noteq> si_port (cf_service (svc_config (svc w))) \<or>
              ad_address (ds_addressable ds) \<noteq> myhost env (svc w)
           then [Metadata (Get_DeviceService (svc_name (svc w))),
                 Metadata (Update_Addressable ((ds_addressable ds)
                    \<lparr>ad_port := si_port (cf_service (svc_config (svc w))),
                     ad_address := myhost env (svc w)\<rparr>)),
                 Edgex (DeviceService_Free (ds\<lparr>ds_addressable := (ds_addressable ds)
                    \<lparr>ad_port := si_port (cf_service (svc_config (svc w))),
                     ad_address := myhost env (svc w)\<rparr>\<rparr>))]
           else [Metadata (Get_DeviceService (svc_name (svc w))),
                 Edgex (DeviceService_Free ds)])"
  using ex by (simp add: sc_register_deviceservice_def sc_update_addressable_def Let_def)

lemma startConfigured_reconcile:
  "case sc_wait_services env w of
     Returned r \<Rightarrow>
       startConfigured env config w = r \<and> err r \<noteq> EDGEX_OK \<and>
       filter reconcile_event (trace r) = filter reconcile_event (trace w)
   | Running w1 \<Rightarrow>
       svc_name (svc w1) = svc_name (svc w) \<and> svc_config (svc w1) = svc_config (svc w) \<and>
       myhost env (svc w1) = myhost env (svc w) \<and>
       filter reconcile_event (trace w1) = filter reconcile_event (trace w) \<and>
       (case sc_register_deviceservice env w1 of
          Returned r \<Rightarrow> startConfigured env config w = r
        | Running c \<Rightarrow>
            filter reconcile_event (trace (startConfigured env config w)) =
              filter reconcile_event (trace c))"
proof -
  note s1 = sc_wait_services_cases [where P = reconcile_event and env = env and w = w,
      OF reconcile_not_ping]
  show ?thesis
  proof (cases "sc_wait_services env w")
    case (Returned r)
    with s1 show ?thesis by (simp add: startConfigured_def)
  next
    case w1: (Running w1)
    with s1 have f1: "svc_name (svc w1) = svc_name (svc w)" "svc_config (svc w1) = svc_config (svc w)"
      "myhost env (svc w1) = myhost env (svc w)"
      "filter reconcile_event (trace w1) = filter reconcile_event (trace w)"
      by (simp_all add: myhost_def)
    show ?thesis
    proof (cases "sc_register_deviceservice env w1")
      case (Returned r)
      with w1 f1 show ?thesis by (simp add: startConfigured_def)
    next
      case (Running c)
      have "filter reconcile_event (trace (startConfigured env config w)) =
          filter reconcile_event (trace c)"
        unfolding startConfigured_def w1 Running andthen_Running
        by (rule sc_after_register_quiet) simp
      with w1 Running f1 show ?thesis by simp
    qed
  qed
qed

text \<open>
  The branch for a device service that metadata holds (lines 401 to 416). \<open>base\<close> are the
  calls of the registration block already in the trace; a bring-up adds to them as follows.
  When the addressable of the record \<open>ds\<close> differs from the configured port or the resolved
  host, the bring-up either stops before the block, or fetches the record and calls
  \<open>update_addressable\<close> with the addressable set to the configured port and the resolved
  host: nothing is created. When the addressable matches in both, the record is fetched and
  nothing is written to metadata.
\<close>

lemma existing_deviceservice_reconciled:
  assumes port: "port = si_port (cf_service (svc_config (svc w)))"
    and host: "host = myhost env (svc w)"
    and name: "name = svc_name (svc w)"
    and base: "base = filter reconcile_event (trace w)"
    and addr: "addr = (ds_addressable ds)\<lparr>ad_port := port, ad_address := host\<rparr>"
  shows
    "((\<forall>h. env_get_deviceservice env h name = (Some ds, EDGEX_OK)) \<and>
      (ad_port (ds_addressable ds) \<noteq> port \<or> ad_address (ds_addressable ds) \<noteq> host) \<longrightarrow>
        filter reconcile_event (trace (startConfigured env config w)) = base \<or>
        filter reconcile_event (trace (startConfigured env config w)) =
          base @ [Metadata (Get_DeviceService name), Metadata (Update_Addressable addr)] \<or>
        filter reconcile_event (trace (startConfigured env config w)) =
          base @ [Metadata (Get_DeviceService name), Metadata (Update_Addressable addr),
                  Edgex (DeviceService_Free (ds\<lparr>ds_addressable := addr\<rparr>))]) \<and>
     ((\<forall>h. env_get_deviceservice env h name = (Some ds, EDGEX_OK)) \<and>
      ad_port (ds_addressable ds) = port \<and> ad_address (ds_addressable ds) = host \<longrightarrow>
        filter reconcile_event (trace (startConfigured env config w)) = base \<or>
        filter reconcile_event (trace (startConfigured env config w)) =
          base @ [Metadata (Get_DeviceService name), Edgex (DeviceService_Free ds)])"
proof (intro conjI impI)
  note sc = startConfigured_reconcile [where env = env and w = w and config = config]
  {
    assume h: "(\<forall>h. env_get_deviceservice env h name = (Some ds, EDGEX_OK)) \<and>
      (ad_port (ds_addressable ds) \<noteq> port \<or> ad_address (ds_addressable ds) \<noteq> host)"
    show "filter reconcile_event (trace (startConfigured env config w)) = base \<or>
        filter reconcile_event (trace (startConfigured env config w)) =
          base @ [Metadata (Get_DeviceService name), Metadata (Update_Addressable addr)] \<or>
        filter reconcile_event (trace (startConfigured env config w)) =
          base @ [Metadata (Get_DeviceService name), Metadata (Update_Addressable addr),
                  Edgex (DeviceService_Free (ds\<lparr>ds_addressable := addr\<rparr>))]"
    proof (cases "sc_wait_services env w")
      case (Returned r)
      with sc show ?thesis by (simp add: base)
    next
      case w1: (Running w1)
      with sc have f1: "svc_name (svc w1) = name" "svc_config (svc w1) = svc_config (svc w)"
        "myhost env (svc w1) = host" "filter reconcile_event (trace w1) = base"
        by (simp_all add: name host base)
      from h f1 have "\<forall>h. env_get_deviceservice env h (svc_name (svc w1)) = (Some ds, EDGEX_OK)"
        by simp
      note ex = sc_register_existing [OF this]
      show ?thesis
      proof (cases "sc_register_deviceservice env w1")
        case (Returned r)
        with sc w1 ex f1 show ?thesis by (simp add: port addr)
      next
        case (Running c)
        with sc w1 ex f1 h show ?thesis by (simp add: port addr)
      qed
    qed
  next
    assume h: "(\<forall>h. env_get_deviceservice env h name = (Some ds, EDGEX_OK)) \<and>
      ad_port (ds_addressable ds) = port \<and> ad_address (ds_addressable ds) = host"
    show "filter reconcile_event (trace (startConfigured env config w)) = base \<or>
        filter reconcile_event (trace (startConfigured env config w)) =
          base @ [Metadata (Get_DeviceService name), Edgex (DeviceService_Free ds)]"
    proof (cases "sc_wait_services env w")
      case (Returned r)
      with sc show ?thesis by (simp add: base)
    next
      case w1: (Running w1)
      with sc have f1: "svc_name (svc w1) = name" "svc_config (svc w1) = svc_config (svc w)"
        "myhost env (svc w1) = host" "filter reconcile_event (trace w1) = base"
        by (simp_all add: name host base)
      from h f1 have "\<forall>h. env_get_deviceservice env h (svc_name (svc w1)) = (Some ds, EDGEX_OK)"
        by simp
      note ex = sc_register_existing [OF this]
      show ?thesis
      proof (cases "sc_register_deviceservice env w1")
        case (Returned r)
        with ex f1 h show ?thesis by (simp add: port)
      next
        case (Running c)
        with sc w1 ex f1 h show ?thesis by (simp add: port)
      qed
    qed
  }
qed

text \<open>
  Metadata holds the device service with port 48080; the service is configured for 49990: the
  addressable is updated to 49990 and the bring-up succeeds.
\<close>

lemma existing_deviceservice_updated_example:
  "err (startConfigured
          (example_env\<lparr>env_get_deviceservice := \<lambda>h name.
             (Some \<lparr>ds_id = Some ''d0'', ds_name = ''device-example'',
                    ds_addressable =
                      \<lparr>ad_id = Some ''a0'', ad_name = ''device-example'', ad_method = ''POST'',
                       ad_protocol = ''HTTP'', ad_address = ''edge-node'', ad_port = 48080,
                       ad_path = ''/api/v1/callback'', ad_origin = 1\<rparr>,
                    ds_operatingState = ENABLED, ds_adminState = UNLOCKED, ds_created = 1,
                    ds_labels = []\<rparr>, EDGEX_OK)\<rparr>)
          None example_world) = EDGEX_OK \<and>
   filter reconcile_event (trace (startConfigured
          (example_env\<lparr>env_get_deviceservice := \<lambda>h name.
             (Some \<lparr>ds_id = Some ''d0'', ds_name = ''device-example'',
                    ds_addressable =
                      \<lparr>ad_id = Some ''a0'', ad_name = ''device-example'', ad_method = ''POST'',
                       ad_protocol = ''HTTP'', ad_address = ''edge-node'', ad_port = 48080,
                       ad_path = ''/api/v1/callback'', ad_origin = 1\<rparr>,
                    ds_operatingState = ENABLED, ds_adminState = UNLOCKED, ds_created = 1,
                    ds_labels = []\<rparr>, EDGEX_OK)\<rparr>)
          None example_world)) =
     [Metadata (Get_DeviceService ''device-example''),
      Metadata (Update_Addressable
        \<lparr>ad_id = Some ''a0'', ad_name = ''device-example'', ad_method = ''POST'',
         ad_protocol = ''HTTP'', ad_address = ''edge-node'', ad_port = 49990,
         ad_path = ''/api/v1/callback'', ad_origin = 1\<rparr>),
      Edgex (DeviceService_Free
        \<lparr>ds_id = Some ''d0'', ds_name = ''device-example'',
         ds_addressable =
           \<lparr>ad_id = Some ''a0'', ad_name = ''device-example'', ad_method = ''POST'',
            ad_protocol = ''HTTP'', ad_address = ''edge-node'', ad_port = 49990,
            ad_path = ''/api/v1/callback'', ad_origin = 1\<rparr>,
         ds_operatingState = ENABLED, ds_adminState = UNLOCKED, ds_created = 1,
         ds_labels = []\<rparr>)]"
  using existing_deviceservice_reconciled
    [where w = example_world and config = None
       and env = "example_env\<lparr>env_get_deviceservice := \<lambda>h name.
             (Some \<lparr>ds_id = Some ''d0'', ds_name = ''device-example'',
                    ds_addressable =
                      \<lparr>ad_id = Some ''a0'', ad_name = ''device-example'', ad_method = ''POST'',
                       ad_protocol = ''HTTP'', ad_address = ''edge-node'', ad_port = 48080,
                       ad_path = ''/api/v1/callback'', ad_origin = 1\<rparr>,
                    ds_operatingState = ENABLED, ds_adminState = UNLOCKED, ds_created = 1,
                    ds_labels = []\<rparr>, EDGEX_OK)\<rparr>"
       and ds = "\<lparr>ds_id = Some ''d0'', ds_name = ''device-example'',
                    ds_addressable =
                      \<lparr>ad_id = Some ''a0'', ad_name = ''device-example'', ad_method = ''POST'',
                       ad_protocol = ''HTTP'', ad_address = ''edge-node'', ad_port = 48080,
                       ad_path = ''/api/v1/callback'', ad_origin = 1\<rparr>,
                    ds_operatingState = ENABLED, ds_adminState = UNLOCKED, ds_created = 1,
                    ds_labels = []\<rparr>",
     OF refl refl refl refl refl]
  by (simp add: startConfigured_unfold example_env_def example_world_def example_svc_def
      EDGEX_DEV_API_CALLBACK_def)

text \<open>
  Claim C2. Metadata holds no device service of this name but an addressable of this name,
  with port 48080 and host \<open>old-node\<close>; the service is configured for port 49990 on
  \<open>edge-node\<close>. The branch for a missing device service (lines 349 to 379) takes the
  addressable as fetched, without the comparison of port and host that the branch for an
  existing device service makes: the bring-up succeeds, the device service is created with the
  old addressable, and no addressable is created or updated. After this successful bring-up the
  addressable recorded in metadata has neither the configured port nor the resolved host.
\<close>

theorem stale_addressable_kept:
  "err (startConfigured
          (example_env\<lparr>env_get_addressable := \<lambda>h name.
             (Some \<lparr>ad_id = Some ''a0'', ad_name = ''device-example'', ad_method = ''POST'',
                    ad_protocol = ''HTTP'', ad_address = ''old-node'', ad_port = 48080,
                    ad_path = ''/api/v1/callback'', ad_origin = 1\<rparr>, EDGEX_OK)\<rparr>)
          None example_world) = EDGEX_OK \<and>
   filter reconcile_event (trace (startConfigured
          (example_env\<lparr>env_get_addressable := \<lambda>h name.
             (Some \<lparr>ad_id = Some ''a0'', ad_name = ''device-example'', ad_method = ''POST'',
                    ad_protocol = ''HTTP'', ad_address = ''old-node'', ad_port = 48080,
                    ad_path = ''/api/v1/callback'', ad_origin = 1\<rparr>, EDGEX_OK)\<rparr>)
          None example_world)) =
     [Metadata (Get_DeviceService ''device-example''),
      Metadata (Get_Addressable ''device-example''),
      Metadata (Create_DeviceService
        \<lparr>ds_id = None, ds_name = ''device-example'',
         ds_addressable =
           \<lparr>ad_id = Some ''a0'', ad_name = ''device-example'', ad_method = ''POST'',
            ad_protocol = ''HTTP'', ad_address = ''old-node'', ad_port = 48080,
            ad_path = ''/api/v1/callback'', ad_origin = 1\<rparr>,
         ds_operatingState = ENABLED, ds_adminState = UNLOCKED, ds_created = 1000,
         ds_labels = []\<rparr>),
      Edgex (DeviceService_Free
        \<lparr>ds_id = Some ''d1'', ds_name = ''device-example'',
         ds_addressable =
           \<lparr>ad_id = Some ''a0'', ad_name = ''device-example'', ad_method = ''POST'',
            ad_protocol = ''HTTP'', ad_address = ''old-node'', ad_port = 48080,
            ad_path = ''/api/v1/callback'', ad_origin = 1\<rparr>,
         ds_operatingState = ENABLED, ds_adminState = UNLOCKED, ds_created = 1000,
         ds_labels = []\<rparr>)] \<and>
   si_port (cf_service (svc_config (svc example_world))) = 49990 \<and>
   myhost example_env (svc example_world) = ''edge-node''"
  by (simp add: startConfigured_unfold example_env_def example_world_def example_svc_def)

subsection \<open>First run with a registry\<close>

text \<open>Nothing but the block that uploads the configuration puts one into the registry.\<close>

lemma ping_client_loop_no_put:
  "\<exists>es. trace (snd (ping_client_loop env sname host port retries delay w)) = trace w @ es \<and>
        filter is_put_config es = []"
proof (induction env sname host port retries delay w rule: ping_client_loop.induct)
  case (1 env sname host port retries delay w)
  define e where "e = env_http_get env (trace w) host port"
  define w1 where "w1 = emit (Http_Get host port) (w\<lparr>err := e\<rparr>)"
  define r where "r = env_nanosleep env (trace w1)"
  define w2 where "w2 = emit (Nanosleep delay) w1"
  show ?case
  proof (cases "e \<noteq> EDGEX_OK \<and> retries \<noteq> 0 \<and> r = 0")
    case True
    then have step: "ping_client_loop env sname host port retries delay w =
        ping_client_loop env sname host port (retries - 1) delay w2"
      by (subst ping_client_loop.simps) (simp add: Let_def e_def w1_def r_def w2_def)
    from True "1.IH" [OF e_def w1_def _ _ r_def w2_def]
    obtain es where "trace (snd (ping_client_loop env sname host port (retries - 1) delay w2)) =
        trace w2 @ es" "filter is_put_config es = []"
      by auto
    then show ?thesis
      unfolding step by (simp add: w2_def w1_def)
  next
    case False
    then show ?thesis
      by (subst ping_client_loop.simps) (auto simp: Let_def e_def w1_def r_def w2_def)
  qed
qed

lemma ping_client_no_put:
  "\<exists>es. trace (snd (ping_client env sname ep retries delay w)) = trace w @ es \<and>
        filter is_put_config es = []"
proof (cases "ep_host ep")
  case None
  then show ?thesis by (simp add: ping_client_def)
next
  case (Some host)
  from ping_client_loop_no_put [where env = env and sname = sname and host = host
      and port = "ep_port ep" and retries = retries and delay = delay and w = w]
  obtain es where "trace (snd (ping_client_loop env sname host (ep_port ep) retries delay w)) =
      trace w @ es" "filter is_put_config es = []" by blast
  with Some show ?thesis
    by (cases "ep_port ep = 0") (auto simp: ping_client_def split: prod.splits)
qed

lemma no_put_andthen:
  assumes m: "\<exists>es. trace (finish m) = trace w @ es \<and> filter is_put_config es = []"
    and f: "\<And>c. \<exists>es. trace (finish (f c)) = trace c @ es \<and> filter is_put_config es = []"
  shows "\<exists>es. trace (finish (andthen m f)) = trace w @ es \<and> filter is_put_config es = []"
proof (cases m)
  case (Returned r)
  with m show ?thesis by simp
next
  case (Running c)
  with m obtain es where es: "trace c = trace w @ es" "filter is_put_config es = []" by auto
  from f [of c] obtain es' where "trace (finish (f c)) = trace c @ es'"
    "filter is_put_config es' = []" by blast
  with es Running show ?thesis by simp
qed

lemma sc_wait_services_no_put:
  "\<exists>es. trace (finish (sc_wait_services env w)) = trace w @ es \<and> filter is_put_config es = []"
proof -
  define w0 where "w0 = w\<lparr>svc := (svc w)\<lparr>svc_adminstate := UNLOCKED, svc_opstate := ENABLED\<rparr>\<rparr>"
  define cfg where "cfg = svc_config (svc w0)"
  define p1 where "p1 = ping_client env ''core-data'' (ep_data (cf_endpoints cfg))
      (si_connectretries (cf_service cfg)) (si_timeout (cf_service cfg)) w0"
  define p2 where "p2 = ping_client env ''core-metadata'' (ep_metadata (cf_endpoints cfg))
      (si_connectretries (cf_service cfg)) (si_timeout (cf_service cfg)) (snd p1)"
  have "\<exists>es. trace (snd p1) = trace w0 @ es \<and> filter is_put_config es = []"
    unfolding p1_def by (rule ping_client_no_put)
  then obtain es1 where e1: "trace (snd p1) = trace w @ es1" "filter is_put_config es1 = []"
    by (auto simp: w0_def)
  have "\<exists>es. trace (snd p2) = trace (snd p1) @ es \<and> filter is_put_config es = []"
    unfolding p2_def by (rule ping_client_no_put)
  then obtain es2 where e2: "trace (snd p2) = trace (snd p1) @ es2" "filter is_put_config es2 = []"
    by blast
  have "sc_wait_services env w =
      (if \<not> fst p1 then Returned (snd p1)
       else if \<not> fst p2 then Returned (snd p2) else Running ((snd p2)\<lparr>err := EDGEX_OK\<rparr>))"
    by (simp add: sc_wait_services_def Let_def p1_def p2_def cfg_def w0_def split: prod.splits)
  then show ?thesis
    using e1 e2 by simp
qed

lemma sc_register_deviceservice_no_put:
  "\<exists>es. trace (finish (sc_register_deviceservice env w)) = trace w @ es \<and>
        filter is_put_config es = []"
proof -
  have u: "\<exists>es. trace (finish (andthen (sc_update_addressable env ds v)
        (\<lambda>(ds, w2). Running (emit (Edgex (DeviceService_Free ds)) w2)))) = trace v @ es \<and>
        filter is_put_config es = []"
    for ds and v :: "'a world_scheme"
    by (simp add: sc_update_addressable_def Let_def)
  have c: "\<exists>es. trace (finish (andthen (sc_create_deviceservice env v)
        (\<lambda>(ds, w2). Running (emit (Edgex (DeviceService_Free ds)) w2)))) = trace v @ es \<and>
        filter is_put_config es = []"
    for v :: "'a world_scheme"
    by (simp add: sc_create_deviceservice_def Let_def split: prod.splits option.splits)
  obtain fetched e where g: "env_get_deviceservice env (trace w) (svc_name (svc w)) = (fetched, e)"
    by (cases "env_get_deviceservice env (trace w) (svc_name (svc w))")
  define w1 where "w1 = emit (Metadata (Get_DeviceService (svc_name (svc w)))) (w\<lparr>err := e\<rparr>)"
  show ?thesis
  proof (cases "e \<noteq> EDGEX_OK")
    case True
    with g show ?thesis by (simp add: sc_register_deviceservice_def Let_def)
  next
    case False
    show ?thesis
    proof (cases fetched)
      case None
      from c [of w1] obtain es where "trace (finish (andthen (sc_create_deviceservice env w1)
        (\<lambda>(ds, w2). Running (emit (Edgex (DeviceService_Free ds)) w2)))) = trace w1 @ es"
        "filter is_put_config es = []" by blast
      with g False None show ?thesis
        by (simp add: sc_register_deviceservice_def Let_def w1_def)
    next
      case (Some ds)
      from u [of ds w1] obtain es where "trace (finish (andthen (sc_update_addressable env ds w1)
        (\<lambda>(ds, w2). Running (emit (Edgex (DeviceService_Free ds)) w2)))) = trace w1 @ es"
        "filter is_put_config es = []" by blast
      with g False Some show ?thesis
        by (simp add: sc_register_deviceservice_def Let_def w1_def)
    qed
  qed
qed

lemma sc_load_devices_no_put:
  "\<exists>es. trace (finish (sc_load_devices env w)) = trace w @ es \<and> filter is_put_config es = []"
  by (simp add: sc_load_devices_def Let_def split: prod.splits)

lemma sc_start_rest_no_put:
  "\<exists>es. trace (finish (sc_start_rest env w)) = trace w @ es \<and> filter is_put_config es = []"
  by (simp add: sc_start_rest_def Let_def split: prod.splits)

lemma sc_configured_devices_no_put:
  "\<exists>es. trace (finish (sc_configured_devices env config w)) = trace w @ es \<and>
        filter is_put_config es = []"
  by (simp add: sc_configured_devices_def Let_def split: prod.splits option.splits)

lemma sc_driver_init_no_put:
  "\<exists>es. trace (finish (sc_driver_init env w)) = trace w @ es \<and> filter is_put_config es = []"
  by (simp add: sc_driver_init_def Let_def)

lemma sc_watchers_and_handlers_no_put:
  "\<exists>es. trace (finish (sc_watchers_and_handlers env w)) = trace w @ es \<and>
        filter is_put_config es = []"
  by (simp add: sc_watchers_and_handlers_def Let_def split: prod.splits)

lemma sc_register_service_no_put:
  "\<exists>es. trace (finish (sc_register_service env w)) = trace w @ es \<and> filter is_put_config es = []"
  by (simp add: sc_register_service_def Let_def split: option.splits)

lemma startConfigured_no_put:
  "\<exists>es. trace (startConfigured env config w) = trace w @ es \<and> filter is_put_config es = []"
  unfolding startConfigured_def
  by (intro no_put_andthen sc_wait_services_no_put sc_register_deviceservice_no_put
      sc_load_devices_no_put sc_start_rest_no_put sc_configured_devices_no_put
      sc_driver_init_no_put sc_watchers_and_handlers_no_put sc_register_service_no_put)

lemma trace_set_config [simp]: "trace (set_config cfg w) = trace w"
  by (simp add: set_config_def)

lemma trace_set_endpoints [simp]: "trace (set_endpoints eps w) = trace w"
  by (simp add: set_endpoints_def)

lemma trace_set_logger [simp]: "trace (set_logger lg w) = trace w"
  by (simp add: set_logger_def)

lemma log_pairs_loop_trace:
  "trace (log_pairs_loop pairs w) = trace w @ replicate (length pairs) (Log LOG_DEBUG ''%s=%s'')"
  by (induction pairs arbitrary: w) (simp_all add: replicate_app_Cons_same)

lemma log_pairs_loop_state [simp]:
  "svc (log_pairs_loop pairs w) = svc w" "err (log_pairs_loop pairs w) = err w"
  "world.more (log_pairs_loop pairs w) = world.more w"
  by (induction pairs arbitrary: w) simp_all

lemma ss_remote_logging_no_put:
  "\<exists>es. trace (finish (ss_remote_logging env f)) = trace f @ es \<and> filter is_put_config es = []"
proof -
  define cfg where "cfg = svc_config (svc f)"
  define p where "p = ping_client env ''support-logging'' (ep_logging (cf_endpoints cfg))
      (si_connectretries (cf_service cfg)) (si_timeout (cf_service cfg)) f"
  have "\<exists>es. trace (snd p) = trace f @ es \<and> filter is_put_config es = []"
    unfolding p_def by (rule ping_client_no_put)
  then show ?thesis
    by (auto simp: ss_remote_logging_def Let_def p_def cfg_def split: prod.splits)
qed

lemma ss_bringup_no_put:
  "\<exists>es. trace (finish (ss_bringup env f)) = trace f @ es \<and> filter is_put_config es = []"
proof -
  define cfg where "cfg = svc_config (svc f)"
  define f1 where "f1 = (if dv_profilesdir (cf_device cfg) = None
      then set_config (cfg\<lparr>cf_device := (cf_device cfg)\<lparr>dv_profilesdir := Some (svc_confdir (svc f))\<rparr>\<rparr>) f
      else f)"
  define f4 where "f4 = emit (Log LOG_DEBUG ''Service configuration follows:'')
         (emit (Log LOG_INFO ''EdgeX device SDK for C, version '')
            (emit (Log LOG_INFO ''Starting %s device service, version %s'') f1))"
  define f5 where "f5 = log_pairs_loop (fr_confpairs f4) f4"
  have t5: "\<exists>es. trace f5 = trace f @ es \<and> filter is_put_config es = []"
    by (simp add: f5_def f4_def f1_def log_pairs_loop_trace)
  from startConfigured_no_put [where env = env and config = "fr_config f5" and w = f5]
  obtain es' where "trace (startConfigured env (fr_config f5) f5) = trace f5 @ es'"
    "filter is_put_config es' = []" by blast
  with t5 have "\<exists>es. trace (startConfigured env (fr_config f5) f5) = trace f @ es \<and>
      filter is_put_config es = []" by auto
  moreover have "ss_bringup env f =
      (if err (startConfigured env (fr_config f5) f5) = EDGEX_OK
       then Running
           (emit (Log LOG_INFO ''Listening on port: %d'')
              (emit (Log LOG_INFO ''Service started in: %dms'')
                 (emit (Iot Iot_Time_Msecs) (startConfigured env (fr_config f5) f5))))
       else Running (startConfigured env (fr_config f5) f5))"
    unfolding ss_bringup_def Let_def f5_def f4_def f1_def cfg_def by (rule refl)
  ultimately show ?thesis by auto
qed

lemma frame_emit [simp]:
  "fr_config (emit e f) = fr_config f" "fr_uploadConfig (emit e f) = fr_uploadConfig f"
  "fr_confpairs (emit e f) = fr_confpairs f"
  by (simp_all add: emit_def)

lemma frame_set_config [simp]:
  "fr_config (set_config cfg f) = fr_config f"
  "fr_uploadConfig (set_config cfg f) = fr_uploadConfig f"
  "fr_confpairs (set_config cfg f) = fr_confpairs f"
  "err (set_config cfg f) = err f"
  "svc (set_config cfg f) = (svc f)\<lparr>svc_config := cfg\<rparr>"
  by (simp_all add: set_config_def)

lemma word32_minus_of_nat_nonzero:
  "k < unat r \<Longrightarrow> r - of_nat k \<noteq> 0" for r :: "32 word"
proof
  assume k: "k < unat r" and z: "r - of_nat k = 0"
  from z have "r = of_nat k" by simp
  then have "unat r = unat (of_nat k :: 32 word)" by simp
  also have "\<dots> \<le> k" by (simp add: unat_of_nat)
  finally show False using k by simp
qed

text \<open>The registry answers the ping after \<open>k\<close> failed pings, within the attempts allowed.\<close>

lemma registry_wait_loop_reached:
  assumes "\<forall>j<k. \<not> fst (env_registry_ping env
        (trace w @ concat (replicate j [Registry Registry_Ping, Nanosleep delay])))"
    and "fst (env_registry_ping env
        (trace w @ concat (replicate k [Registry Registry_Ping, Nanosleep delay])))"
    and "k < unat retries"
  shows "registry_wait_loop env delay retries w =
     (retries - of_nat k,
      w\<lparr>err := snd (env_registry_ping env
                 (trace w @ concat (replicate k [Registry Registry_Ping, Nanosleep delay]))),
        trace := trace w @ concat (replicate k [Registry Registry_Ping, Nanosleep delay]) @
                 [Registry Registry_Ping]\<rparr>)"
  using assms
proof (induction k arbitrary: retries w)
  case 0
  then show ?case
    by (subst registry_wait_loop.simps) (simp add: split_beta emit_def)
next
  case (Suc k)
  obtain ok e where p: "env_registry_ping env (trace w) = (ok, e)"
    by (cases "env_registry_ping env (trace w)")
  from Suc.prems(1) have "\<not> fst (env_registry_ping env (trace w @ concat (replicate 0 [Registry Registry_Ping, Nanosleep delay])))"
    by blast
  with p have nok: "\<not> ok" by simp
  from Suc.prems(3) have "1 < unat retries" by simp
  then have nz: "retries - 1 \<noteq> 0"
    using word32_minus_of_nat_nonzero [of 1 retries] by simp
  have r0: "retries \<noteq> 0" using Suc.prems(3) by (auto simp: unat_eq_zero)
  have u: "unat (retries - 1) = unat retries - 1" by (rule unat_minus_one [OF r0])
  define w2 where "w2 = emit (Nanosleep delay) (emit (Registry Registry_Ping) (w\<lparr>err := e\<rparr>))"
  have t2: "trace w2 = trace w @ [Registry Registry_Ping, Nanosleep delay]"
    by (simp add: w2_def emit_def)
  have step: "registry_wait_loop env delay retries w = registry_wait_loop env delay (retries - 1) w2"
    using p nok nz by (subst registry_wait_loop.simps) (simp del: diff_eq_eq add: w2_def)
  have a: "\<forall>j<k. \<not> fst (env_registry_ping env
        (trace w2 @ concat (replicate j [Registry Registry_Ping, Nanosleep delay])))"
  proof (intro allI impI)
    fix j assume "j < k"
    then have "Suc j < Suc k" by simp
    with Suc.prems(1) have "\<not> fst (env_registry_ping env
        (trace w @ concat (replicate (Suc j) [Registry Registry_Ping, Nanosleep delay])))" by blast
    then show "\<not> fst (env_registry_ping env
        (trace w2 @ concat (replicate j [Registry Registry_Ping, Nanosleep delay])))"
      by (simp add: t2)
  qed
  have b: "fst (env_registry_ping env
        (trace w2 @ concat (replicate k [Registry Registry_Ping, Nanosleep delay])))"
    using Suc.prems(2) by (simp add: t2)
  have c: "k < unat (retries - 1)" using Suc.prems(3) u by simp
  have "retries - 1 - of_nat k = retries - of_nat (Suc k)" by simp
  with Suc.IH [OF a b c] show ?case
    unfolding step by (simp add: t2) (simp add: w2_def emit_def)
qed

lemma ss_wait_registry_reached:
  assumes reg: "svc_registry (svc f) = Some r"
    and down: "\<forall>j<k. \<not> fst (env_registry_ping env
        (trace f @ concat (replicate j [Registry Registry_Ping, Nanosleep (registry_delay env)])))"
    and up: "fst (env_registry_ping env
        (trace f @ concat (replicate k [Registry Registry_Ping, Nanosleep (registry_delay env)])))"
    and k: "k < unat (registry_retries env)"
    and nullcfg: "\<forall>h. fst (env_get_config env h) = []"
  shows "\<exists>f3. ss_wait_registry env f = Running f3 \<and>
      trace f3 = trace f @
        concat (replicate k [Registry Registry_Ping, Nanosleep (registry_delay env)]) @
        [Registry Registry_Ping, Log LOG_INFO ''Found registry service at %s'',
         Registry Registry_Get_Config,
         Log LOG_INFO ''Unable to get configuration from registry.'',
         Log LOG_INFO ''Will load from file.''] \<and>
      svc f3 = (svc f)\<lparr>svc_stopconfig := Some False\<rparr> \<and>
      fr_config f3 = fr_config f \<and> fr_uploadConfig f3"
proof -
  note l = registry_wait_loop_reached [OF down up k]
  note nz = word32_minus_of_nat_nonzero [OF k]
  obtain e where p: "env_get_config env
      (trace f @ concat (replicate k [Registry Registry_Ping, Nanosleep (registry_delay env)]) @
       [Registry Registry_Ping, Log LOG_INFO ''Found registry service at %s'']) = ([], e)"
    using nullcfg by (metis prod.collapse)
  show ?thesis
    using reg p nz by (simp add: ss_wait_registry_def l Let_def)
qed

lemma frame_set_endpoints [simp]:
  "fr_config (set_endpoints eps f) = fr_config f"
  "fr_uploadConfig (set_endpoints eps f) = fr_uploadConfig f"
  "fr_confpairs (set_endpoints eps f) = fr_confpairs f"
  "err (set_endpoints eps f) = err f"
  "svc (set_endpoints eps f) = (svc f)\<lparr>svc_config := (svc_config (svc f))\<lparr>cf_endpoints := eps\<rparr>\<rparr>"
  by (simp_all add: set_endpoints_def)

lemma frame_set_logger [simp]:
  "fr_config (set_logger lg f) = fr_config f"
  "fr_uploadConfig (set_logger lg f) = fr_uploadConfig f"
  "fr_confpairs (set_logger lg f) = fr_confpairs f"
  "err (set_logger lg f) = err f"
  "svc (set_logger lg f) = (svc f)\<lparr>svc_logger := lg\<rparr>"
  by (simp_all add: set_logger_def)

lemma frame_log_pairs_loop [simp]:
  "fr_config (log_pairs_loop pairs f) = fr_config f"
  "fr_confpairs (log_pairs_loop pairs f) = fr_confpairs f"
  by (induction pairs arbitrary: f) simp_all

text \<open>With a registry, the endpoints of the three core services are asked of it.\<close>

lemma ss_endpoints_registry:
  assumes "svc_registry (svc f) = Some r"
  shows "\<exists>fe. ss_endpoints env f = Running fe \<and>
      trace fe = trace f @
        [Registry (Registry_Query_Service ''edgex-core-metadata''),
         Registry (Registry_Query_Service ''edgex-core-data''),
         Registry (Registry_Query_Service ''edgex-support-logging'')] \<and>
      cf_logging (svc_config (svc fe)) = cf_logging (svc_config (svc f)) \<and>
      svc_name (svc fe) = svc_name (svc f) \<and> svc_registry (svc fe) = svc_registry (svc f) \<and>
      fr_config fe = fr_config f \<and> fr_confpairs fe = fr_confpairs f"
  using assms
  by (cases "lg_file (cf_logging (svc_config (svc f)))") (simp_all add: ss_endpoints_def Let_def)

text \<open>The last block logs the configuration and hands the service to \<open>startConfigured\<close>.\<close>

lemma ss_bringup_shape:
  "\<exists>f5. trace f5 = trace f @
        [Log LOG_INFO ''Starting %s device service, version %s'',
         Log LOG_INFO ''EdgeX device SDK for C, version '',
         Log LOG_DEBUG ''Service configuration follows:''] @
        replicate (length (fr_confpairs f)) (Log LOG_DEBUG ''%s=%s'') \<and>
      svc_name (svc f5) = svc_name (svc f) \<and> svc_registry (svc f5) = svc_registry (svc f) \<and>
      ss_bringup env f =
        Running (if err (startConfigured env (fr_config f) f5) = EDGEX_OK
           then emit (Log LOG_INFO ''Listening on port: %d'')
                  (emit (Log LOG_INFO ''Service started in: %dms'')
                     (emit (Iot Iot_Time_Msecs) (startConfigured env (fr_config f) f5)))
           else startConfigured env (fr_config f) f5)"
proof -
  define cfg where "cfg = svc_config (svc f)"
  define f1 where "f1 = (if dv_profilesdir (cf_device cfg) = None
      then set_config (cfg\<lparr>cf_device := (cf_device cfg)\<lparr>dv_profilesdir := Some (svc_confdir (svc f))\<rparr>\<rparr>) f
      else f)"
  define f4 where "f4 = emit (Log LOG_DEBUG ''Service configuration follows:'')
         (emit (Log LOG_INFO ''EdgeX device SDK for C, version '')
            (emit (Log LOG_INFO ''Starting %s device service, version %s'') f1))"
  define f5 where "f5 = log_pairs_loop (fr_confpairs f4) f4"
  have c: "fr_confpairs f4 = fr_confpairs f" "fr_config f5 = fr_config f"
    by (simp_all add: f5_def f4_def f1_def)
  have t5: "trace f5 = trace f @
        [Log LOG_INFO ''Starting %s device service, version %s'',
         Log LOG_INFO ''EdgeX device SDK for C, version '',
         Log LOG_DEBUG ''Service configuration follows:''] @
        replicate (length (fr_confpairs f)) (Log LOG_DEBUG ''%s=%s'')"
    "svc_name (svc f5) = svc_name (svc f)" "svc_registry (svc f5) = svc_registry (svc f)"
    by (simp_all add: f5_def f4_def f1_def log_pairs_loop_trace)
  have "ss_bringup env f =
      (if err (startConfigured env (fr_config f5) f5) = EDGEX_OK
       then Running
           (emit (Log LOG_INFO ''Listening on port: %d'')
              (emit (Log LOG_INFO ''Service started in: %dms'')
                 (emit (Iot Iot_Time_Msecs) (startConfigured env (fr_config f5) f5))))
       else Running (startConfigured env (fr_config f5) f5))"
    unfolding ss_bringup_def Let_def f5_def f4_def f1_def cfg_def by (rule refl)
  with t5 c(2) show ?thesis by (intro exI [of _ f5]) simp
qed

text \<open>
  Claim C4. The service has a registry URL \<open>u\<close> (given, or read from the configuration
  file when the URL given is empty) and the registry is reachable: \<open>k\<close> pings fail and
  the next one is answered, within the attempts allowed. The registry holds no configuration,
  and the configuration file loads as \<open>table\<close>. \<open>located\<close> is the trace when the
  registry has been looked up, \<open>ready\<close> the trace when the upload is due, \<open>put\<close> what
  \<open>put_config\<close> answers then. \<open>devsdk_service_start\<close> waits for the registry, loads the
  file once (before the registry is looked up when the URL was empty, after \<open>get_config\<close>
  otherwise), populates the configuration record from the pairs parsed from it, and puts the
  pairs, overridden from the environment, into the registry: this is the only \<open>put_config\<close>
  of the run. When it fails, all that follows is the log of the error: start returns with the
  error of \<open>put_config\<close>, the configuration record populated from the file. When it
  succeeds, start goes on: it asks the registry for the endpoints of the core services and,
  with remote logging off, logs the configuration and runs \<open>startConfigured\<close> on the
  table of the file, whose result is the result of start.
\<close>

theorem first_run_uploads_configuration:
  assumes url: "svc_regURL (svc w) = Some url"
    and fromfile: "url = [] \<longrightarrow> env_getRegURL env (Some table) = Some u"
    and given: "url \<noteq> [] \<longrightarrow> u = url"
    and reg: "\<forall>h. env_get_registry env h u \<noteq> None"
    and located: "located =
        trace w @ [Iot Iot_Time_Msecs, Iot Iot_Init, Iot Threadpool_Start] @
        (if url = [] then [Config (Load_Config (svc_confdir (svc w)) (svc_profile (svc w)))] else []) @
        [Registry (Registry_Get_Registry u)]"
    and down: "\<forall>j<k. \<not> fst (env_registry_ping env
        (located @ concat (replicate j [Registry Registry_Ping, Nanosleep (registry_delay env)])))"
    and up: "fst (env_registry_ping env
        (located @ concat (replicate k [Registry Registry_Ping, Nanosleep (registry_delay env)])))"
    and within: "k < unat (registry_retries env)"
    and nullcfg: "\<forall>h. fst (env_get_config env h) = []"
    and load: "\<forall>h. env_loadConfig env h (svc_confdir (svc w)) (svc_profile (svc w)) =
        (Some table, EDGEX_OK)"
    and pairs: "pairs = env_parseToml env (Some table)"
    and over: "overridden = env_overrideConfig env (svc_name (svc w)) pairs"
    and populated: "populated = fst (env_populateConfig env pairs (svc_config (svc w)))"
    and ready: "ready =
        located @ concat (replicate k [Registry Registry_Ping, Nanosleep (registry_delay env)]) @
        [Registry Registry_Ping,
         Log LOG_INFO ''Found registry service at %s'', Registry Registry_Get_Config,
         Log LOG_INFO ''Unable to get configuration from registry.'',
         Log LOG_INFO ''Will load from file.''] @
        (if url = [] then [] else [Config (Load_Config (svc_confdir (svc w)) (svc_profile (svc w)))]) @
        [Config (Populate_Config pairs),
         Log LOG_INFO ''Uploading configuration to registry.'']"
    and put: "put = env_put_config env ready overridden"
  shows "\<exists>rest.
     trace (devsdk_service_start env w) =
       ready @ [Registry (Registry_Put_Config overridden)] @ rest \<and>
     filter is_put_config (trace (devsdk_service_start env w)) =
       filter is_put_config (trace w) @ [Registry (Registry_Put_Config overridden)] \<and>
     (put \<noteq> EDGEX_OK \<longrightarrow>
        rest = [Log LOG_ERROR ''Unable to upload config: %s''] \<and>
        err (devsdk_service_start env w) = put \<and>
        svc_config (svc (devsdk_service_start env w)) = populated) \<and>
     (put = EDGEX_OK \<longrightarrow>
        take 3 rest =
          [Registry (Registry_Query_Service ''edgex-core-metadata''),
           Registry (Registry_Query_Service ''edgex-core-data''),
           Registry (Registry_Query_Service ''edgex-support-logging'')]) \<and>
     (put = EDGEX_OK \<and> \<not> lg_useremote (cf_logging populated) \<longrightarrow>
        (\<exists>f. trace f =
              ready @
              [Registry (Registry_Put_Config overridden),
               Registry (Registry_Query_Service ''edgex-core-metadata''),
               Registry (Registry_Query_Service ''edgex-core-data''),
               Registry (Registry_Query_Service ''edgex-support-logging''),
               Log LOG_INFO ''Starting %s device service, version %s'',
               Log LOG_INFO ''EdgeX device SDK for C, version '',
               Log LOG_DEBUG ''Service configuration follows:''] @
              replicate (length overridden) (Log LOG_DEBUG ''%s=%s'') \<and>
            svc_name (svc f) = svc_name (svc w) \<and> svc_registry (svc f) \<noteq> None \<and>
            devsdk_service_start env w =
              (if err (startConfigured env (Some table) f) = EDGEX_OK
               then emit (Log LOG_INFO ''Listening on port: %d'')
                      (emit (Log LOG_INFO ''Service started in: %dms'')
                         (emit (Iot Iot_Time_Msecs) (startConfigured env (Some table) f)))
               else startConfigured env (Some table) f)))"
proof -
  define f0 :: start_frame where
    "f0 = \<lparr>svc = svc w, err = err w, trace = trace w,
            fr_config = None, fr_uploadConfig = False, fr_confpairs = []\<rparr>"
  define t1 where "t1 = trace w @ [Iot Iot_Time_Msecs, Iot Iot_Init, Iot Threadpool_Start]"
  define tried where
    "tried = concat (replicate k [Registry Registry_Ping, Nanosleep (registry_delay env)])"
  define t3 where "t3 = located @ tried @ [Registry Registry_Ping,
        Log LOG_INFO ''Found registry service at %s'', Registry Registry_Get_Config,
        Log LOG_INFO ''Unable to get configuration from registry.'',
        Log LOG_INFO ''Will load from file.'']"
  define put_event where "put_event = Registry (Registry_Put_Config overridden)"
  have ready': "ready = t3 @
      (if url = [] then [] else [Config (Load_Config (svc_confdir (svc w)) (svc_profile (svc w)))]) @
      [Config (Populate_Config pairs), Log LOG_INFO ''Uploading configuration to registry.'']"
    by (simp add: ready t3_def tried_def)
  have quiet: "filter is_put_config ready = filter is_put_config (trace w)"
    by (simp add: ready located)
  have "\<exists>f1. ss_begin env f0 = Running f1 \<and> trace f1 = t1 \<and>
      svc f1 = (svc w)\<lparr>svc_starttime := env_time_msecs env (trace w)\<rparr> \<and>
      fr_config f1 = None"
    by (simp add: ss_begin_def f0_def Let_def t1_def)
  then obtain f1 where b: "ss_begin env f0 = Running f1"
    and f1: "trace f1 = t1" "svc f1 = (svc w)\<lparr>svc_starttime := env_time_msecs env (trace w)\<rparr>"
      "fr_config f1 = None"
    by blast
  have "\<exists>f2. ss_find_registry env f1 = Running f2 \<and> trace f2 = located \<and>
      svc_registry (svc f2) \<noteq> None \<and> svc_config (svc f2) = svc_config (svc w) \<and>
      svc_confdir (svc f2) = svc_confdir (svc w) \<and> svc_profile (svc f2) = svc_profile (svc w) \<and>
      svc_name (svc f2) = svc_name (svc w) \<and>
      fr_config f2 = (if url = [] then Some table else None)"
  proof (cases "url = []")
    case True
    with url fromfile f1 reg load show ?thesis
      by (simp add: ss_find_registry_def Let_def located t1_def)
  next
    case False
    with url given f1 reg show ?thesis
      by (simp add: ss_find_registry_def Let_def located t1_def)
  qed
  then obtain f2 where g: "ss_find_registry env f1 = Running f2"
    and f2: "trace f2 = located" "svc_registry (svc f2) \<noteq> None"
      "svc_config (svc f2) = svc_config (svc w)" "svc_confdir (svc f2) = svc_confdir (svc w)"
      "svc_profile (svc f2) = svc_profile (svc w)" "svc_name (svc f2) = svc_name (svc w)"
      "fr_config f2 = (if url = [] then Some table else None)"
    by blast
  from f2(2) obtain rr where rr: "svc_registry (svc f2) = Some rr" by blast
  from ss_wait_registry_reached [OF rr down [folded f2(1)] up [folded f2(1)] within nullcfg]
  obtain f3 where wr: "ss_wait_registry env f2 = Running f3"
    and f3': "trace f3 = t3" "svc f3 = (svc f2)\<lparr>svc_stopconfig := Some False\<rparr>"
      "fr_config f3 = fr_config f2" "fr_uploadConfig f3"
    unfolding t3_def tried_def f2(1) by auto
  have f3: "svc_registry (svc f3) = Some rr"
      "svc_config (svc f3) = svc_config (svc w)" "svc_confdir (svc f3) = svc_confdir (svc w)"
      "svc_profile (svc f3) = svc_profile (svc w)" "svc_name (svc f3) = svc_name (svc w)"
    using f3'(2) f2 rr by simp_all
  define fl where "fl = (if url = [] then f3
      else emit (Config (Load_Config (svc_confdir (svc w)) (svc_profile (svc w))))
             (f3\<lparr>err := EDGEX_OK, fr_config := Some table\<rparr>))"
  define pc where "pc = env_populateConfig env pairs (svc_config (svc w))"
  define fp where "fp = emit (Config (Populate_Config pairs))
      ((set_config (fst pc) fl)\<lparr>err := snd pc, fr_confpairs := pairs\<rparr>)"
  define fu where "fu = emit (Log LOG_INFO ''Uploading configuration to registry.'') fp"
  define pe where "pe = env_put_config env (trace fu) overridden"
  define f4 where "f4 = emit put_event (fu\<lparr>err := pe, fr_confpairs := overridden\<rparr>)"
  have fu: "trace fu = ready"
    using f3'(1) by (simp add: fu_def fp_def fl_def ready')
  have pe: "pe = put"
    by (simp add: pe_def put fu)
  have "ss_load_file env f3 =
      (if pe \<noteq> EDGEX_OK then Returned (emit (Log LOG_ERROR ''Unable to upload config: %s'') f4)
       else Running f4)"
  proof (cases "url = []")
    case True
    with f2 f3 f3' show ?thesis
      by (simp add: ss_load_file_def Let_def case_prod_beta pairs over
          fl_def pc_def fp_def fu_def pe_def f4_def put_event_def)
  next
    case False
    with f2 f3 f3' load show ?thesis
      by (simp add: ss_load_file_def Let_def case_prod_beta pairs over
          fl_def pc_def fp_def fu_def pe_def f4_def put_event_def)
  qed
  then have branch: "ss_load_file env f3 =
      (if put \<noteq> EDGEX_OK then Returned (emit (Log LOG_ERROR ''Unable to upload config: %s'') f4)
       else Running f4)"
    by (simp only: pe)
  have f4: "trace f4 = ready @ [put_event]" "svc_config (svc f4) = populated" "err f4 = put"
    "svc_registry (svc f4) = Some rr" "svc_name (svc f4) = svc_name (svc w)"
    "fr_config f4 = Some table" "fr_confpairs f4 = overridden"
    using f3 f3' f2(7) fu pe by (simp_all add: f4_def fu_def fp_def fl_def populated pc_def)
  have start: "devsdk_service_start env w =
      finish (andthen (ss_load_file env f3) (\<lambda>f.
        andthen (ss_endpoints env f) (\<lambda>f.
        andthen (ss_remote_logging env f) (\<lambda>f.
        ss_bringup env f))))"
    using b g wr by (simp add: devsdk_service_start_def f0_def [symmetric])
  show ?thesis
  proof (cases "put \<noteq> EDGEX_OK")
    case True
    with branch have r: "devsdk_service_start env w =
        emit (Log LOG_ERROR ''Unable to upload config: %s'') f4"
      by (simp add: start)
    show ?thesis
      using True quiet
      by (intro exI [of _ "[Log LOG_ERROR ''Unable to upload config: %s'']"])
        (simp add: r f4 put_event_def)
  next
    case False
    then have ok: "put = EDGEX_OK" by simp
    from ss_endpoints_registry [OF f4(4), of env]
    obtain fe where e: "ss_endpoints env f4 = Running fe"
      and fe: "trace fe = ready @ [put_event] @
        [Registry (Registry_Query_Service ''edgex-core-metadata''),
         Registry (Registry_Query_Service ''edgex-core-data''),
         Registry (Registry_Query_Service ''edgex-support-logging'')]"
        "cf_logging (svc_config (svc fe)) = cf_logging populated"
        "svc_name (svc fe) = svc_name (svc w)" "svc_registry (svc fe) = Some rr"
        "fr_config fe = Some table" "fr_confpairs fe = overridden"
      unfolding f4 by auto
    from False branch e have r: "devsdk_service_start env w =
        finish (andthen (ss_remote_logging env fe) (\<lambda>f. ss_bringup env f))"
      by (simp add: start)
    have "\<exists>es. trace (finish (andthen (ss_remote_logging env fe) (\<lambda>f. ss_bringup env f))) =
        trace fe @ es \<and> filter is_put_config es = []"
      by (intro no_put_andthen ss_remote_logging_no_put ss_bringup_no_put)
    then obtain es where es: "trace (devsdk_service_start env w) = trace fe @ es"
      "filter is_put_config es = []"
      unfolding r by blast
    define rest where "rest =
        [Registry (Registry_Query_Service ''edgex-core-metadata''),
         Registry (Registry_Query_Service ''edgex-core-data''),
         Registry (Registry_Query_Service ''edgex-support-logging'')] @ es"
    have tr: "trace (devsdk_service_start env w) = ready @ [put_event] @ rest"
      by (simp add: es fe rest_def)
    have once: "filter is_put_config (trace (devsdk_service_start env w)) =
        filter is_put_config (trace w) @ [put_event]"
      by (simp add: tr quiet rest_def es put_event_def)
    have t3: "take 3 rest =
        [Registry (Registry_Query_Service ''edgex-core-metadata''),
         Registry (Registry_Query_Service ''edgex-core-data''),
         Registry (Registry_Query_Service ''edgex-support-logging'')]"
      by (simp add: rest_def)
    have proceed: "\<exists>f. trace f =
              ready @
              [put_event,
               Registry (Registry_Query_Service ''edgex-core-metadata''),
               Registry (Registry_Query_Service ''edgex-core-data''),
               Registry (Registry_Query_Service ''edgex-support-logging''),
               Log LOG_INFO ''Starting %s device service, version %s'',
               Log LOG_INFO ''EdgeX device SDK for C, version '',
               Log LOG_DEBUG ''Service configuration follows:''] @
              replicate (length overridden) (Log LOG_DEBUG ''%s=%s'') \<and>
            svc_name (svc f) = svc_name (svc w) \<and> svc_registry (svc f) \<noteq> None \<and>
            devsdk_service_start env w =
              (if err (startConfigured env (Some table) f) = EDGEX_OK
               then emit (Log LOG_INFO ''Listening on port: %d'')
                      (emit (Log LOG_INFO ''Service started in: %dms'')
                         (emit (Iot Iot_Time_Msecs) (startConfigured env (Some table) f)))
               else startConfigured env (Some table) f)"
      if local: "\<not> lg_useremote (cf_logging populated)"
    proof -
      from local fe(2) have rl: "ss_remote_logging env fe = Running fe"
        by (simp add: ss_remote_logging_def Let_def)
      from ss_bringup_shape [of fe env] obtain f5 where
        f5: "trace f5 = trace fe @
          [Log LOG_INFO ''Starting %s device service, version %s'',
           Log LOG_INFO ''EdgeX device SDK for C, version '',
           Log LOG_DEBUG ''Service configuration follows:''] @
          replicate (length (fr_confpairs fe)) (Log LOG_DEBUG ''%s=%s'')"
          "svc_name (svc f5) = svc_name (svc fe)" "svc_registry (svc f5) = svc_registry (svc fe)"
        and bu: "ss_bringup env fe =
          Running (if err (startConfigured env (fr_config fe) f5) = EDGEX_OK
             then emit (Log LOG_INFO ''Listening on port: %d'')
                    (emit (Log LOG_INFO ''Service started in: %dms'')
                       (emit (Iot Iot_Time_Msecs) (startConfigured env (fr_config fe) f5)))
             else startConfigured env (fr_config fe) f5)"
        by blast
      show ?thesis
        using f5 fe
        by (intro exI [of _ f5]) (simp add: r rl bu)
    qed
    show ?thesis
      using ok tr once t3 proceed
      by (intro exI [of _ rest]) (simp add: put_event_def)
  qed
qed

text \<open>
  A first run against a registry that answers the second ping: when it refuses the upload,
  start ends with the error; when it accepts, start hands over to \<open>startConfigured\<close>.
\<close>

theorem first_run_uploads_configuration_witness:
  "trace (devsdk_service_start
            (example_env\<lparr>env_registry_ping := \<lambda>h. (Registry Registry_Ping \<in> set h, EDGEX_OK),
                          env_put_config := \<lambda>h pairs. EDGEX_OTHER 3\<rparr>)
            (example_world\<lparr>svc := example_svc\<lparr>svc_regURL := Some ''consul://localhost:8500''\<rparr>\<rparr>))
     = [Iot Iot_Time_Msecs, Iot Iot_Init, Iot Threadpool_Start,
        Registry (Registry_Get_Registry ''consul://localhost:8500''),
        Registry Registry_Ping, Nanosleep \<lparr>tv_sec = 1, tv_nsec = 0\<rparr>, Registry Registry_Ping,
        Log LOG_INFO ''Found registry service at %s'', Registry Registry_Get_Config,
        Log LOG_INFO ''Unable to get configuration from registry.'',
        Log LOG_INFO ''Will load from file.'',
        Config (Load_Config ''res'' None),
        Config (Populate_Config [\<lparr>nv_name = ''Service/Port'', nv_value = ''49990''\<rparr>]),
        Log LOG_INFO ''Uploading configuration to registry.'',
        Registry (Registry_Put_Config [\<lparr>nv_name = ''Service/Port'', nv_value = ''49990''\<rparr>]),
        Log LOG_ERROR ''Unable to upload config: %s''] \<and>
   err (devsdk_service_start
            (example_env\<lparr>env_registry_ping := \<lambda>h. (Registry Registry_Ping \<in> set h, EDGEX_OK),
                          env_put_config := \<lambda>h pairs. EDGEX_OTHER 3\<rparr>)
            (example_world\<lparr>svc := example_svc\<lparr>svc_regURL := Some ''consul://localhost:8500''\<rparr>\<rparr>))
     = EDGEX_OTHER 3 \<and>
   (\<exists>f. trace f =
       [Iot Iot_Time_Msecs, Iot Iot_Init, Iot Threadpool_Start,
        Registry (Registry_Get_Registry ''consul://localhost:8500''),
        Registry Registry_Ping, Nanosleep \<lparr>tv_sec = 1, tv_nsec = 0\<rparr>, Registry Registry_Ping,
        Log LOG_INFO ''Found registry service at %s'', Registry Registry_Get_Config,
        Log LOG_INFO ''Unable to get configuration from registry.'',
        Log LOG_INFO ''Will load from file.'',
        Config (Load_Config ''res'' None),
        Config (Populate_Config [\<lparr>nv_name = ''Service/Port'', nv_value = ''49990''\<rparr>]),
        Log LOG_INFO ''Uploading configuration to registry.'',
        Registry (Registry_Put_Config [\<lparr>nv_name = ''Service/Port'', nv_value = ''49990''\<rparr>]),
        Registry (Registry_Query_Service ''edgex-core-metadata''),
        Registry (Registry_Query_Service ''edgex-core-data''),
        Registry (Registry_Query_Service ''edgex-support-logging''),
        Log LOG_INFO ''Starting %s device service, version %s'',
        Log LOG_INFO ''EdgeX device SDK for C, version '',
        Log LOG_DEBUG ''Service configuration follows:'',
        Log LOG_DEBUG ''%s=%s''] \<and>
      devsdk_service_start
        (example_env\<lparr>env_registry_ping := \<lambda>h. (Registry Registry_Ping \<in> set h, EDGEX_OK)\<rparr>)
        (example_world\<lparr>svc := example_svc\<lparr>svc_regURL := Some ''consul://localhost:8500''\<rparr>\<rparr>) =
      (if err (startConfigured
                 (example_env\<lparr>env_registry_ping := \<lambda>h. (Registry Registry_Ping \<in> set h, EDGEX_OK)\<rparr>)
                 (Some (Toml_Table ''configuration.toml'')) f) = EDGEX_OK
       then emit (Log LOG_INFO ''Listening on port: %d'')
              (emit (Log LOG_INFO ''Service started in: %dms'')
                 (emit (Iot Iot_Time_Msecs)
                    (startConfigured
                       (example_env\<lparr>env_registry_ping := \<lambda>h. (Registry Registry_Ping \<in> set h, EDGEX_OK)\<rparr>)
                       (Some (Toml_Table ''configuration.toml'')) f)))
       else startConfigured
              (example_env\<lparr>env_registry_ping := \<lambda>h. (Registry Registry_Ping \<in> set h, EDGEX_OK)\<rparr>)
              (Some (Toml_Table ''configuration.toml'')) f))"
proof -
  note failing = first_run_uploads_configuration
    [where w = "example_world\<lparr>svc := example_svc\<lparr>svc_regURL := Some ''consul://localhost:8500''\<rparr>\<rparr>"
       and env = "example_env\<lparr>env_registry_ping := \<lambda>h. (Registry Registry_Ping \<in> set h, EDGEX_OK),
                          env_put_config := \<lambda>h pairs. EDGEX_OTHER 3\<rparr>"
       and url = "''consul://localhost:8500''" and u = "''consul://localhost:8500''"
       and table = "Toml_Table ''configuration.toml''" and k = 1,
     OF _ _ _ _ refl _ _ _ _ _ refl refl refl refl refl]
  note accepted = first_run_uploads_configuration
    [where w = "example_world\<lparr>svc := example_svc\<lparr>svc_regURL := Some ''consul://localhost:8500''\<rparr>\<rparr>"
       and env = "example_env\<lparr>env_registry_ping := \<lambda>h. (Registry Registry_Ping \<in> set h, EDGEX_OK)\<rparr>"
       and url = "''consul://localhost:8500''" and u = "''consul://localhost:8500''"
       and table = "Toml_Table ''configuration.toml''" and k = 1,
     OF _ _ _ _ refl _ _ _ _ _ refl refl refl refl refl]
  have a: "trace (devsdk_service_start
            (example_env\<lparr>env_registry_ping := \<lambda>h. (Registry Registry_Ping \<in> set h, EDGEX_OK),
                          env_put_config := \<lambda>h pairs. EDGEX_OTHER 3\<rparr>)
            (example_world\<lparr>svc := example_svc\<lparr>svc_regURL := Some ''consul://localhost:8500''\<rparr>\<rparr>))
     = [Iot Iot_Time_Msecs, Iot Iot_Init, Iot Threadpool_Start,
        Registry (Registry_Get_Registry ''consul://localhost:8500''),
        Registry Registry_Ping, Nanosleep \<lparr>tv_sec = 1, tv_nsec = 0\<rparr>, Registry Registry_Ping,
        Log LOG_INFO ''Found registry service at %s'', Registry Registry_Get_Config,
        Log LOG_INFO ''Unable to get configuration from registry.'',
        Log LOG_INFO ''Will load from file.'',
        Config (Load_Config ''res'' None),
        Config (Populate_Config [\<lparr>nv_name = ''Service/Port'', nv_value = ''49990''\<rparr>]),
        Log LOG_INFO ''Uploading configuration to registry.'',
        Registry (Registry_Put_Config [\<lparr>nv_name = ''Service/Port'', nv_value = ''49990''\<rparr>]),
        Log LOG_ERROR ''Unable to upload config: %s''] \<and>
   err (devsdk_service_start
            (example_env\<lparr>env_registry_ping := \<lambda>h. (Registry Registry_Ping \<in> set h, EDGEX_OK),
                          env_put_config := \<lambda>h pairs. EDGEX_OTHER 3\<rparr>)
            (example_world\<lparr>svc := example_svc\<lparr>svc_regURL := Some ''consul://localhost:8500''\<rparr>\<rparr>))
     = EDGEX_OTHER 3"
    using failing
    by (auto simp: example_env_def example_world_def example_svc_def registry_retries_def
        registry_delay_def)
  have b: "\<exists>f. trace f =
       [Iot Iot_Time_Msecs, Iot Iot_Init, Iot Threadpool_Start,
        Registry (Registry_Get_Registry ''consul://localhost:8500''),
        Registry Registry_Ping, Nanosleep \<lparr>tv_sec = 1, tv_nsec = 0\<rparr>, Registry Registry_Ping,
        Log LOG_INFO ''Found registry service at %s'', Registry Registry_Get_Config,
        Log LOG_INFO ''Unable to get configuration from registry.'',
        Log LOG_INFO ''Will load from file.'',
        Config (Load_Config ''res'' None),
        Config (Populate_Config [\<lparr>nv_name = ''Service/Port'', nv_value = ''49990''\<rparr>]),
        Log LOG_INFO ''Uploading configuration to registry.'',
        Registry (Registry_Put_Config [\<lparr>nv_name = ''Service/Port'', nv_value = ''49990''\<rparr>]),
        Registry (Registry_Query_Service ''edgex-core-metadata''),
        Registry (Registry_Query_Service ''edgex-core-data''),
        Registry (Registry_Query_Service ''edgex-support-logging''),
        Log LOG_INFO ''Starting %s device service, version %s'',
        Log LOG_INFO ''EdgeX device SDK for C, version '',
        Log LOG_DEBUG ''Service configuration follows:'',
        Log LOG_DEBUG ''%s=%s''] \<and>
      devsdk_service_start
        (example_env\<lparr>env_registry_ping := \<lambda>h. (Registry Registry_Ping \<in> set h, EDGEX_OK)\<rparr>)
        (example_world\<lparr>svc := example_svc\<lparr>svc_regURL := Some ''consul://localhost:8500''\<rparr>\<rparr>) =
      (if err (startConfigured
                 (example_env\<lparr>env_registry_ping := \<lambda>h. (Registry Registry_Ping \<in> set h, EDGEX_OK)\<rparr>)
                 (Some (Toml_Table ''configuration.toml'')) f) = EDGEX_OK
       then emit (Log LOG_INFO ''Listening on port: %d'')
              (emit (Log LOG_INFO ''Service started in: %dms'')
                 (emit (Iot Iot_Time_Msecs)
                    (startConfigured
                       (example_env\<lparr>env_registry_ping := \<lambda>h. (Registry Registry_Ping \<in> set h, EDGEX_OK)\<rparr>)
                       (Some (Toml_Table ''configuration.toml'')) f)))
       else startConfigured
              (example_env\<lparr>env_registry_ping := \<lambda>h. (Registry Registry_Ping \<in> set h, EDGEX_OK)\<rparr>)
              (Some (Toml_Table ''configuration.toml'')) f)"
    using accepted
    by (auto simp: example_env_def example_world_def example_svc_def registry_retries_def
        registry_delay_def)
  from a b show ?thesis by (elim conjE) (intro conjI, assumption+)
qed

end
